theory Spec2Isabelle
  imports Main "HOL-Library.Word"
begin

unbundle bit_operations_syntax

section \<open>Data model of the MQTT client (lwcell_mqtt_client.c)\<close>

type_synonym u8 = "8 word"
type_synonym u16 = "16 word"
type_synonym u32 = "32 word"

text \<open>
  Modelled from the spec: the result type \<open>lwcellr_t\<close>, declared in a header that is not
  among the files. These are the members this file returns: success, the generic error, the
  memory error and the connection-closed error.
\<close>

datatype lwcellr_t = lwcellOK | lwcellERR | lwcellERRMEM | lwcellCLOSED

text \<open>
  Modelled from the spec: the session states \<open>lwcell_mqtt_state_t\<close>, declared in a header
  that is not among the files; the members are those the source names. The source distinguishes
  the transport that is being opened (\<open>LWCELL_MQTT_CONN_CONNECTING\<close>, set by
  \<open>lwcell_mqtt_client_connect\<close>) from the MQTT session whose CONNECT packet has been
  written (\<open>LWCELL_MQTT_CONNECTING\<close>, set by \<open>prv_mqtt_connected_cb\<close>).
\<close>

datatype lwcell_mqtt_state_t =
    LWCELL_MQTT_CONN_DISCONNECTED
  | LWCELL_MQTT_CONN_CONNECTING
  | LWCELL_MQTT_CONN_DISCONNECTING
  | LWCELL_MQTT_CONNECTING
  | LWCELL_MQTT_CONNECTED

text \<open>
  Modelled from the spec: the user events \<open>lwcell_mqtt_evt_t\<close>, declared in a header that is
  not among the files. An event is the \<open>type\<close> tag together with the union member the source
  fills in for that tag: the status of CONNECT, \<open>is_accepted\<close> of DISCONNECT, the user
  argument and the result of PUBLISH, SUBSCRIBE and UNSUBSCRIBE, and topic, payload, dup, QoS and
  retain of PUBLISH_RECV. User arguments (\<open>void*\<close>) are addresses, modelled as natural numbers.
  The user callback \<open>evt_fn\<close> is modelled as a log: every call appends the event it was
  given.
\<close>

datatype lwcell_mqtt_evt_t =
    LWCELL_MQTT_EVT_CONNECT int
  | LWCELL_MQTT_EVT_DISCONNECT bool
  | LWCELL_MQTT_EVT_PUBLISH nat lwcellr_t
  | LWCELL_MQTT_EVT_PUBLISH_RECV "u8 list" "u8 list" u8 u8 u8
  | LWCELL_MQTT_EVT_SUBSCRIBE nat lwcellr_t
  | LWCELL_MQTT_EVT_UNSUBSCRIBE nat lwcellr_t
  | LWCELL_MQTT_EVT_KEEP_ALIVE

datatype mqtt_msg_type_t =
    MQTT_MSG_TYPE_CONNECT
  | MQTT_MSG_TYPE_CONNACK
  | MQTT_MSG_TYPE_PUBLISH
  | MQTT_MSG_TYPE_PUBACK
  | MQTT_MSG_TYPE_PUBREC
  | MQTT_MSG_TYPE_PUBREL
  | MQTT_MSG_TYPE_PUBCOMP
  | MQTT_MSG_TYPE_SUBSCRIBE
  | MQTT_MSG_TYPE_SUBACK
  | MQTT_MSG_TYPE_UNSUBSCRIBE
  | MQTT_MSG_TYPE_UNSUBACK
  | MQTT_MSG_TYPE_PINGREQ
  | MQTT_MSG_TYPE_PINGRESP
  | MQTT_MSG_TYPE_DISCONNECT

fun msg_type_code :: "mqtt_msg_type_t \<Rightarrow> u8" where
  "msg_type_code MQTT_MSG_TYPE_CONNECT = 0x01"
| "msg_type_code MQTT_MSG_TYPE_CONNACK = 0x02"
| "msg_type_code MQTT_MSG_TYPE_PUBLISH = 0x03"
| "msg_type_code MQTT_MSG_TYPE_PUBACK = 0x04"
| "msg_type_code MQTT_MSG_TYPE_PUBREC = 0x05"
| "msg_type_code MQTT_MSG_TYPE_PUBREL = 0x06"
| "msg_type_code MQTT_MSG_TYPE_PUBCOMP = 0x07"
| "msg_type_code MQTT_MSG_TYPE_SUBSCRIBE = 0x08"
| "msg_type_code MQTT_MSG_TYPE_SUBACK = 0x09"
| "msg_type_code MQTT_MSG_TYPE_UNSUBSCRIBE = 0x0A"
| "msg_type_code MQTT_MSG_TYPE_UNSUBACK = 0x0B"
| "msg_type_code MQTT_MSG_TYPE_PINGREQ = 0x0C"
| "msg_type_code MQTT_MSG_TYPE_PINGRESP = 0x0D"
| "msg_type_code MQTT_MSG_TYPE_DISCONNECT = 0x0E"

text \<open>\<open>MQTT_RCV_GET_PACKET_TYPE\<close>: the high nibble of the header byte; \<open>None\<close> for the
  two values (0 and 15) that name no message type.\<close>

definition MQTT_RCV_GET_PACKET_TYPE :: "u8 \<Rightarrow> mqtt_msg_type_t option" where
  "MQTT_RCV_GET_PACKET_TYPE d =
     (let t = (drop_bit 4 d) AND 0x0F in
      if t = 0x01 then Some MQTT_MSG_TYPE_CONNECT
      else if t = 0x02 then Some MQTT_MSG_TYPE_CONNACK
      else if t = 0x03 then Some MQTT_MSG_TYPE_PUBLISH
      else if t = 0x04 then Some MQTT_MSG_TYPE_PUBACK
      else if t = 0x05 then Some MQTT_MSG_TYPE_PUBREC
      else if t = 0x06 then Some MQTT_MSG_TYPE_PUBREL
      else if t = 0x07 then Some MQTT_MSG_TYPE_PUBCOMP
      else if t = 0x08 then Some MQTT_MSG_TYPE_SUBSCRIBE
      else if t = 0x09 then Some MQTT_MSG_TYPE_SUBACK
      else if t = 0x0A then Some MQTT_MSG_TYPE_UNSUBSCRIBE
      else if t = 0x0B then Some MQTT_MSG_TYPE_UNSUBACK
      else if t = 0x0C then Some MQTT_MSG_TYPE_PINGREQ
      else if t = 0x0D then Some MQTT_MSG_TYPE_PINGRESP
      else if t = 0x0E then Some MQTT_MSG_TYPE_DISCONNECT
      else None)"

definition MQTT_RCV_GET_PACKET_QOS :: "u8 \<Rightarrow> u8" where
  "MQTT_RCV_GET_PACKET_QOS d = (drop_bit 1 d) AND 0x03"

definition MQTT_RCV_GET_PACKET_DUP :: "u8 \<Rightarrow> u8" where
  "MQTT_RCV_GET_PACKET_DUP d = (drop_bit 3 d) AND 0x01"

definition MQTT_RCV_GET_PACKET_RETAIN :: "u8 \<Rightarrow> u8" where
  "MQTT_RCV_GET_PACKET_RETAIN d = d AND 0x01"

definition MQTT_REQUEST_FLAG_IN_USE :: u8 where "MQTT_REQUEST_FLAG_IN_USE = 0x01"
definition MQTT_REQUEST_FLAG_PENDING :: u8 where "MQTT_REQUEST_FLAG_PENDING = 0x02"
definition MQTT_REQUEST_FLAG_SUBSCRIBE :: u8 where "MQTT_REQUEST_FLAG_SUBSCRIBE = 0x04"
definition MQTT_REQUEST_FLAG_UNSUBSCRIBE :: u8 where "MQTT_REQUEST_FLAG_UNSUBSCRIBE = 0x08"

definition MQTT_PARSER_STATE_INIT :: u8 where "MQTT_PARSER_STATE_INIT = 0x00"
definition MQTT_PARSER_STATE_CALC_REM_LEN :: u8 where "MQTT_PARSER_STATE_CALC_REM_LEN = 0x01"
definition MQTT_PARSER_STATE_READ_REM :: u8 where "MQTT_PARSER_STATE_READ_REM = 0x02"

subsection \<open>The ring buffer under the TX buffer\<close>

text \<open>
  Modelled from the spec: the ring buffer primitive \<open>lwcell_buff_t\<close> with
  \<open>lwcell_buff_get_free\<close>, \<open>lwcell_buff_write\<close>, \<open>lwcell_buff_skip\<close>,
  \<open>lwcell_buff_reset\<close> and \<open>lwcell_buff_get_linear_block_read_length\<close>; its source
  (lwcell_buff.c) is not among the files. The spec describes a bounded byte ring whose
  reset puts the read and write positions at 0 and whose flush hands over the largest linear
  readable block. The ring is kept as its capacity \<open>b_size\<close>, its read index \<open>b_r\<close> and
  the queued bytes, oldest first; the write index is \<open>(b_r + length b_data) mod b_size\<close>.
  As in a ring with a read and a write index, one cell stays unused so that equal indices mean
  empty. A write stores the bytes that fit and drops the others.
\<close>

record lwcell_buff_t =
  b_size :: nat
  b_r :: nat
  b_data :: "u8 list"

definition lwcell_buff_get_full :: "lwcell_buff_t \<Rightarrow> nat" where
  "lwcell_buff_get_full b = length (b_data b)"

definition lwcell_buff_get_free :: "lwcell_buff_t \<Rightarrow> nat" where
  "lwcell_buff_get_free b = b_size b - 1 - length (b_data b)"

definition lwcell_buff_write :: "lwcell_buff_t \<Rightarrow> u8 list \<Rightarrow> lwcell_buff_t" where
  "lwcell_buff_write b xs = b\<lparr>b_data := b_data b @ take (lwcell_buff_get_free b) xs\<rparr>"

definition lwcell_buff_skip :: "lwcell_buff_t \<Rightarrow> nat \<Rightarrow> lwcell_buff_t" where
  "lwcell_buff_skip b n =
     (let k = min n (lwcell_buff_get_full b) in
      b\<lparr>b_r := (if b_size b = 0 then 0 else (b_r b + k) mod b_size b),
        b_data := drop k (b_data b)\<rparr>)"

definition lwcell_buff_reset :: "lwcell_buff_t \<Rightarrow> lwcell_buff_t" where
  "lwcell_buff_reset b = b\<lparr>b_r := 0, b_data := []\<rparr>"

definition lwcell_buff_get_linear_block_read_length :: "lwcell_buff_t \<Rightarrow> nat" where
  "lwcell_buff_get_linear_block_read_length b = min (length (b_data b)) (b_size b - b_r b)"

subsection \<open>Requests and the client\<close>

text \<open>
  Modelled from the spec: the request \<open>lwcell_mqtt_request_t\<close>, declared in a header that is
  not among the files, with the fields the source reads and writes: status bits, 16-bit packet
  identifier, user argument, expected cumulative sent-bytes value and timeout start time.
\<close>

record lwcell_mqtt_request_t =
  status :: u8
  packet_id :: u16
  arg :: nat
  expected_sent_len :: u32
  timeout_start_time :: u32

text \<open>
  \<open>lwcell_mqtt_client_t\<close>. The request array is a list whose length is
  \<open>LWCELL_CFG_MQTT_MAX_REQUESTS\<close>. Of the session descriptor \<open>info\<close> only
  \<open>keep_alive\<close> is read by the functions modelled here. \<open>rx_buff\<close> is a pointer: it is
  modelled as the bytes found at each offset from it. \<open>evts\<close> is the log of the calls of
  \<open>evt_fn\<close>, oldest first.
\<close>

record lwcell_mqtt_client_t =
  conn_state :: lwcell_mqtt_state_t
  keep_alive :: u16
  poll_time :: u32
  evts :: "lwcell_mqtt_evt_t list"
  tx_buff :: lwcell_buff_t
  is_sending :: u8
  sent_total :: u32
  written_total :: u32
  last_packet_id :: u16
  requests :: "lwcell_mqtt_request_t list"
  rx_buff :: "nat \<Rightarrow> u8"
  rx_buff_len :: nat
  parser_state :: u8
  msg_hdr_byte :: u8
  msg_rem_len :: u32
  msg_rem_len_mult :: u8
  msg_curr_pos :: u32

definition evt_fn :: "lwcell_mqtt_client_t \<Rightarrow> lwcell_mqtt_evt_t \<Rightarrow> lwcell_mqtt_client_t" where
  "evt_fn c e = c\<lparr>evts := evts c @ [e]\<rparr>"

subsection \<open>Packet identifiers\<close>

text \<open>\<open>prv_create_packet_id\<close>: preincrement in 16 bits, 0 replaced by 1.\<close>

definition prv_create_packet_id :: "lwcell_mqtt_client_t \<Rightarrow> u16 \<times> lwcell_mqtt_client_t" where
  "prv_create_packet_id c =
     (let c1 = c\<lparr>last_packet_id := last_packet_id c + 1\<rparr>;
          c2 = (if last_packet_id c1 = 0 then c1\<lparr>last_packet_id := 1\<rparr> else c1)
      in (last_packet_id c2, c2))"

text \<open>The identifiers handed out by \<open>n\<close> successive calls, first call first.\<close>

fun packet_ids :: "nat \<Rightarrow> lwcell_mqtt_client_t \<Rightarrow> u16 list" where
  "packet_ids 0 c = []"
| "packet_ids (Suc n) c = (case prv_create_packet_id c of (i, c') \<Rightarrow> i # packet_ids n c')"

subsection \<open>The request registry\<close>

text \<open>\<open>prv_request_create\<close>: the first slot whose in-use bit is clear, as its index.\<close>

fun find_unused :: "lwcell_mqtt_request_t list \<Rightarrow> nat option" where
  "find_unused [] = None"
| "find_unused (r # rs) =
     (if status r AND MQTT_REQUEST_FLAG_IN_USE = 0 then Some 0
      else map_option Suc (find_unused rs))"

definition prv_request_create ::
  "lwcell_mqtt_client_t \<Rightarrow> u16 \<Rightarrow> nat \<Rightarrow> nat option \<times> lwcell_mqtt_client_t" where
  "prv_request_create c pkt_id a =
     (case find_unused (requests c) of
        None \<Rightarrow> (None, c)
      | Some i \<Rightarrow>
          (Some i,
           c\<lparr>requests := (requests c)[i := (requests c ! i)
                \<lparr>status := MQTT_REQUEST_FLAG_IN_USE, packet_id := pkt_id, arg := a\<rparr>]\<rparr>))"

definition prv_request_delete :: "lwcell_mqtt_client_t \<Rightarrow> nat \<Rightarrow> lwcell_mqtt_client_t" where
  "prv_request_delete c i = c\<lparr>requests := (requests c)[i := (requests c ! i)\<lparr>status := 0\<rparr>]\<rparr>"

text \<open>\<open>prv_request_set_pending\<close>; \<open>now\<close> is the value of \<open>lwcell_sys_now()\<close>.\<close>

definition prv_request_set_pending ::
  "lwcell_mqtt_client_t \<Rightarrow> nat \<Rightarrow> u32 \<Rightarrow> lwcell_mqtt_client_t" where
  "prv_request_set_pending c i now =
     c\<lparr>requests := (requests c)[i := (requests c ! i)
          \<lparr>status := status (requests c ! i) OR MQTT_REQUEST_FLAG_PENDING,
           timeout_start_time := now\<rparr>]\<rparr>"

text \<open>\<open>prv_request_get_pending\<close>: \<open>pkt_id\<close> is an \<open>int32_t\<close>; it is compared after the
  cast to \<open>uint16_t\<close>, and \<open>-1\<close> matches every pending slot.\<close>

fun find_pending :: "lwcell_mqtt_request_t list \<Rightarrow> int \<Rightarrow> nat option" where
  "find_pending [] pkt_id = None"
| "find_pending (r # rs) pkt_id =
     (if status r AND MQTT_REQUEST_FLAG_PENDING \<noteq> 0
         \<and> (pkt_id = - 1 \<or> packet_id r = (word_of_int pkt_id :: u16))
      then Some 0
      else map_option Suc (find_pending rs pkt_id))"

definition prv_request_get_pending :: "lwcell_mqtt_client_t \<Rightarrow> int \<Rightarrow> nat option" where
  "prv_request_get_pending c pkt_id = find_pending (requests c) pkt_id"

definition prv_request_send_err_callback ::
  "lwcell_mqtt_client_t \<Rightarrow> u8 \<Rightarrow> nat \<Rightarrow> lwcell_mqtt_client_t" where
  "prv_request_send_err_callback c st a =
     (if st AND MQTT_REQUEST_FLAG_SUBSCRIBE \<noteq> 0 then evt_fn c (LWCELL_MQTT_EVT_SUBSCRIBE a lwcellERR)
      else if st AND MQTT_REQUEST_FLAG_UNSUBSCRIBE \<noteq> 0 then evt_fn c (LWCELL_MQTT_EVT_UNSUBSCRIBE a lwcellERR)
      else evt_fn c (LWCELL_MQTT_EVT_PUBLISH a lwcellERR))"

text \<open>The number of pending slots: the measure under which the two retiring loops end.\<close>

definition pending_count :: "lwcell_mqtt_request_t list \<Rightarrow> nat" where
  "pending_count rs = length (filter (\<lambda>r. status r AND MQTT_REQUEST_FLAG_PENDING \<noteq> 0) rs)"

subsection \<open>Wire codec and TX buffer facade\<close>

lemma drop_bit7_less: "0 < drop_bit 7 (r :: u16) \<Longrightarrow> unat (drop_bit 7 r) < unat r"
proof -
  assume a: "0 < drop_bit 7 r"
  have e: "unat (drop_bit 7 r) = unat r div 128" by (simp add: drop_bit_eq_div unat_div)
  have "r \<noteq> 0" using a by auto
  then have "0 < unat r" by (simp add: unat_gt_0)
  then show ?thesis using e by simp
qed

text \<open>
  The do-while loop of \<open>prv_write_fixed_header\<close> that encodes the remaining length: the
  bytes it produces, in the order in which it writes them.
\<close>

function rem_len_bytes :: "u16 \<Rightarrow> u8 list" where
  "rem_len_bytes rem_len =
     (let b = (ucast ((rem_len AND 0x7F) OR (if rem_len > 0x7F then 0x80 else 0)) :: u8);
          rem_len' = drop_bit 7 rem_len
      in b # (if rem_len' > 0 then rem_len_bytes rem_len' else []))"
  by pat_completeness auto
termination
  by (relation "measure unat") (auto simp: drop_bit7_less)

declare rem_len_bytes.simps [simp del]

text \<open>
  Modelled from the spec: the values of the QoS enumeration (0 at most once, 1 at least once,
  2 exactly once), declared in a header that is not among the files.
\<close>

definition LWCELL_MQTT_QOS_AT_LEAST_ONCE :: u8 where "LWCELL_MQTT_QOS_AT_LEAST_ONCE = 1"
definition LWCELL_MQTT_QOS_EXACTLY_ONCE :: u8 where "LWCELL_MQTT_QOS_EXACTLY_ONCE = 2"

definition fixed_header_byte :: "mqtt_msg_type_t \<Rightarrow> u8 \<Rightarrow> u8 \<Rightarrow> u8 \<Rightarrow> u8" where
  "fixed_header_byte type dup qos retain =
     (let b = push_bit 4 (msg_type_code type) in
      case type of
        MQTT_MSG_TYPE_PUBLISH \<Rightarrow>
          b OR (push_bit 3 (if dup \<noteq> 0 then 1 else 0) OR push_bit 1 (qos AND 0x03)
                OR (if retain \<noteq> 0 then 1 else 0))
      | MQTT_MSG_TYPE_PUBREL \<Rightarrow> b OR push_bit 1 LWCELL_MQTT_QOS_AT_LEAST_ONCE
      | MQTT_MSG_TYPE_SUBSCRIBE \<Rightarrow> b OR push_bit 1 LWCELL_MQTT_QOS_AT_LEAST_ONCE
      | MQTT_MSG_TYPE_UNSUBSCRIBE \<Rightarrow> b OR push_bit 1 LWCELL_MQTT_QOS_AT_LEAST_ONCE
      | _ \<Rightarrow> b)"

definition prv_write_u8 :: "lwcell_mqtt_client_t \<Rightarrow> u8 \<Rightarrow> lwcell_mqtt_client_t" where
  "prv_write_u8 c num = c\<lparr>tx_buff := lwcell_buff_write (tx_buff c) [num]\<rparr>"

definition prv_write_u16 :: "lwcell_mqtt_client_t \<Rightarrow> u16 \<Rightarrow> lwcell_mqtt_client_t" where
  "prv_write_u16 c num =
     prv_write_u8 (prv_write_u8 c (ucast (drop_bit 8 num))) (ucast (num AND 0xFF))"

text \<open>\<open>prv_write_data\<close>: \<open>data\<close> are the \<open>len\<close> bytes found at the pointer.\<close>

definition prv_write_data :: "lwcell_mqtt_client_t \<Rightarrow> u8 list \<Rightarrow> lwcell_mqtt_client_t" where
  "prv_write_data c data = c\<lparr>tx_buff := lwcell_buff_write (tx_buff c) data\<rparr>"

text \<open>\<open>prv_write_string\<close>: \<open>str\<close> are the bytes of the C string before its terminator.\<close>

definition prv_write_string :: "lwcell_mqtt_client_t \<Rightarrow> u8 list \<Rightarrow> u16 \<Rightarrow> lwcell_mqtt_client_t" where
  "prv_write_string c str len =
     (let c1 = prv_write_u16 c len in
      c1\<lparr>tx_buff := lwcell_buff_write (tx_buff c1) (take (unat len) str)\<rparr>)"

text \<open>
  \<open>prv_write_fixed_header\<close>: the header byte, then the bytes of the remaining length, each
  with a \<open>lwcell_buff_write\<close> of one byte. The parameter \<open>rem_len\<close> is a \<open>uint16_t\<close>.
\<close>

definition prv_write_fixed_header ::
  "lwcell_mqtt_client_t \<Rightarrow> mqtt_msg_type_t \<Rightarrow> u8 \<Rightarrow> u8 \<Rightarrow> u8 \<Rightarrow> u16 \<Rightarrow> lwcell_mqtt_client_t" where
  "prv_write_fixed_header c type dup qos retain rem_len =
     foldl prv_write_u8 c (fixed_header_byte type dup qos retain # rem_len_bytes rem_len)"

text \<open>The do-while loop of \<open>prv_output_check_enough_memory\<close>, in 16 bits.\<close>

function total_len_loop :: "u16 \<Rightarrow> u16 \<Rightarrow> u16" where
  "total_len_loop total_len rem_len =
     (let total_len' = total_len + 1;
          rem_len' = drop_bit 7 rem_len
      in if rem_len' > 0 then total_len_loop total_len' rem_len' else total_len')"
  by pat_completeness auto
termination
  by (relation "measure (\<lambda>(t, r). unat r)") (auto simp: drop_bit7_less)

declare total_len_loop.simps [simp del]

definition prv_output_check_enough_memory :: "lwcell_mqtt_client_t \<Rightarrow> u16 \<Rightarrow> u16" where
  "prv_output_check_enough_memory c rem_len =
     (let total_len = total_len_loop (rem_len + 1) rem_len in
      if (of_nat (lwcell_buff_get_free (tx_buff c)) :: u16) \<ge> total_len then total_len else 0)"

text \<open>
  \<open>prv_send_data\<close>; \<open>send_ok\<close> tells whether \<open>lwcell_conn_send\<close> returns \<open>lwcellOK\<close>.
\<close>

definition prv_send_data :: "lwcell_mqtt_client_t \<Rightarrow> bool \<Rightarrow> lwcell_mqtt_client_t" where
  "prv_send_data c send_ok =
     (if is_sending c \<noteq> 0 then c
      else
        let len = lwcell_buff_get_linear_block_read_length (tx_buff c) in
        if len > 0 then
          (if send_ok then c\<lparr>is_sending := 1, written_total := written_total c + of_nat len\<rparr>
           else c)
        else c\<lparr>tx_buff := lwcell_buff_reset (tx_buff c)\<rparr>)"

definition prv_write_ack_rec_rel_resp ::
  "lwcell_mqtt_client_t \<Rightarrow> mqtt_msg_type_t \<Rightarrow> u16 \<Rightarrow> u8 \<Rightarrow> bool \<Rightarrow> u8 \<times> lwcell_mqtt_client_t" where
  "prv_write_ack_rec_rel_resp c msg_type pkt_id qos send_ok =
     (if prv_output_check_enough_memory c 2 \<noteq> 0 then
        (1, prv_send_data (prv_write_u16 (prv_write_fixed_header c msg_type 0 qos 0 2) pkt_id) send_ok)
      else (0, c))"

text \<open>
  \<open>prv_mqtt_close\<close>; \<open>close_res\<close> is what \<open>lwcell_conn_close\<close> returns.
\<close>

definition prv_mqtt_close ::
  "lwcell_mqtt_client_t \<Rightarrow> lwcellr_t \<Rightarrow> lwcellr_t \<times> lwcell_mqtt_client_t" where
  "prv_mqtt_close c close_res =
     (if conn_state c \<noteq> LWCELL_MQTT_CONN_DISCONNECTED \<and> conn_state c \<noteq> LWCELL_MQTT_CONN_DISCONNECTING
      then (close_res,
            if close_res = lwcellOK then c\<lparr>conn_state := LWCELL_MQTT_CONN_DISCONNECTING\<rparr> else c)
      else (lwcellERR, c))"

subsection \<open>Statements on a request and conditional statements\<close>

text \<open>\<open>request->status |= flag\<close> for the request at index \<open>i\<close>.\<close>

definition request_or_status :: "lwcell_mqtt_client_t \<Rightarrow> nat \<Rightarrow> u8 \<Rightarrow> lwcell_mqtt_client_t" where
  "request_or_status c i flag =
     c\<lparr>requests := (requests c)[i := (requests c ! i)\<lparr>status := status (requests c ! i) OR flag\<rparr>]\<rparr>"

text \<open>\<open>request->expected_sent_len = client->written_total + raw_len\<close>.\<close>

definition request_set_expected_sent_len ::
  "lwcell_mqtt_client_t \<Rightarrow> nat \<Rightarrow> u32 \<Rightarrow> lwcell_mqtt_client_t" where
  "request_set_expected_sent_len c i raw_len =
     c\<lparr>requests := (requests c)[i := (requests c ! i)
          \<lparr>expected_sent_len := written_total c + raw_len\<rparr>]\<rparr>"

text \<open>The statement \<open>if (b) { f }\<close> on the client.\<close>

definition when_do :: "bool \<Rightarrow> ('s \<Rightarrow> 's) \<Rightarrow> 's \<Rightarrow> 's" where
  "when_do b f s = (if b then f s else s)"

subsection \<open>Subscribe and unsubscribe\<close>

text \<open>
  \<open>prv_sub_unsub\<close>. \<open>topic\<close> are the bytes of the C string, so \<open>len_topic\<close> is the
  16-bit cast of its length. \<open>rem_len\<close> is a \<open>uint32_t\<close>; it is cast to \<open>uint16_t\<close>
  where it is passed to \<open>prv_output_check_enough_memory\<close> and \<open>prv_write_fixed_header\<close>.
\<close>

definition prv_sub_unsub ::
  "lwcell_mqtt_client_t \<Rightarrow> u8 list \<Rightarrow> u8 \<Rightarrow> nat \<Rightarrow> u8 \<Rightarrow> u32 \<Rightarrow> bool \<Rightarrow> u8 \<times> lwcell_mqtt_client_t" where
  "prv_sub_unsub c topic qos a sub now send_ok =
     (let len_topic = (of_nat (length topic) :: u16) in
      if len_topic = 0 then (0, c)
      else
        let rem_len = (2 + ucast len_topic + 2 + (if sub \<noteq> 0 then 1 else 0) :: u32) in
        if conn_state c = LWCELL_MQTT_CONNECTED
           \<and> prv_output_check_enough_memory c (ucast rem_len) \<noteq> 0
        then
          (case prv_create_packet_id c of (pkt_id, c1) \<Rightarrow>
             (case prv_request_create c1 pkt_id a of
                (Some i, c2) \<Rightarrow>
                  (1,
                   prv_send_data
                    (prv_request_set_pending
                      (request_or_status
                        (when_do (sub \<noteq> 0)
                          (\<lambda>c. prv_write_u8 c (min qos LWCELL_MQTT_QOS_EXACTLY_ONCE))
                          (prv_write_string
                            (prv_write_u16
                              (prv_write_fixed_header c2
                                (if sub \<noteq> 0 then MQTT_MSG_TYPE_SUBSCRIBE
                                 else MQTT_MSG_TYPE_UNSUBSCRIBE)
                                0 1 0 (ucast rem_len))
                              pkt_id)
                            topic len_topic))
                        i
                        (if sub \<noteq> 0 then MQTT_REQUEST_FLAG_SUBSCRIBE
                         else MQTT_REQUEST_FLAG_UNSUBSCRIBE))
                      i now)
                    send_ok)
              | (None, c2) \<Rightarrow> (0, c2)))
        else (0, c))"

definition lwcell_mqtt_client_subscribe ::
  "lwcell_mqtt_client_t \<Rightarrow> u8 list \<Rightarrow> u8 \<Rightarrow> nat \<Rightarrow> u32 \<Rightarrow> bool \<Rightarrow> lwcellr_t \<times> lwcell_mqtt_client_t" where
  "lwcell_mqtt_client_subscribe c topic qos a now send_ok =
     (case prv_sub_unsub c topic qos a 1 now send_ok of
        (r, c') \<Rightarrow> (if r = 1 then lwcellOK else lwcellERR, c'))"

definition lwcell_mqtt_client_unsubscribe ::
  "lwcell_mqtt_client_t \<Rightarrow> u8 list \<Rightarrow> nat \<Rightarrow> u32 \<Rightarrow> bool \<Rightarrow> lwcellr_t \<times> lwcell_mqtt_client_t" where
  "lwcell_mqtt_client_unsubscribe c topic a now send_ok =
     (case prv_sub_unsub c topic 0 a 0 now send_ok of
        (r, c') \<Rightarrow> (if r = 1 then lwcellOK else lwcellERR, c'))"

subsection \<open>Publish\<close>

text \<open>
  \<open>lwcell_mqtt_client_publish\<close>. \<open>payload\<close> is \<open>None\<close> for a null pointer and otherwise
  the bytes found at each offset from the pointer; \<open>qos\<close> is the value of \<open>qos_u8\<close>.
\<close>

definition lwcell_mqtt_client_publish ::
  "lwcell_mqtt_client_t \<Rightarrow> u8 list \<Rightarrow> (nat \<Rightarrow> u8) option \<Rightarrow> u16 \<Rightarrow> u8 \<Rightarrow> u8 \<Rightarrow> nat \<Rightarrow> u32 \<Rightarrow> bool
     \<Rightarrow> lwcellr_t \<times> lwcell_mqtt_client_t" where
  "lwcell_mqtt_client_publish c topic payload payload_len qos retain a now send_ok =
     (let len_topic = (of_nat (length topic) :: u16) in
      if len_topic = 0 then (lwcellERR, c)
      else
        let rem_len = (2 + ucast len_topic + (if payload \<noteq> None then ucast payload_len else 0)
                         + (if qos > 0 then 2 else 0) :: u32) in
        if conn_state c \<noteq> LWCELL_MQTT_CONNECTED then (lwcellCLOSED, c)
        else
          let raw_len = (ucast (prv_output_check_enough_memory c (ucast rem_len)) :: u32) in
          if raw_len \<noteq> 0 then
            (case (if qos > 0 then prv_create_packet_id c else (0, c)) of (pkt_id, c1) \<Rightarrow>
               (case prv_request_create c1 pkt_id a of
                  (Some i, c2) \<Rightarrow>
                    (lwcellOK,
                     prv_send_data
                      (prv_request_set_pending
                        ((case payload of
                            Some p \<Rightarrow>
                              when_do (payload_len > 0)
                                (\<lambda>c. prv_write_data c (map p [0..<unat payload_len]))
                          | None \<Rightarrow> (\<lambda>c. c))
                          (when_do (qos \<noteq> 0) (\<lambda>c. prv_write_u16 c pkt_id)
                            (prv_write_string
                              (prv_write_fixed_header
                                (request_set_expected_sent_len c2 i raw_len)
                                MQTT_MSG_TYPE_PUBLISH 0
                                (min qos LWCELL_MQTT_QOS_EXACTLY_ONCE) retain (ucast rem_len))
                              topic len_topic)))
                        i now)
                      send_ok)
                | (None, c2) \<Rightarrow> (lwcellERRMEM, c2)))
          else (lwcellERRMEM, c))"

subsection \<open>Packet dispatcher\<close>

text \<open>\<open>rx_buff[i] << 8 | rx_buff[i + 1]\<close>, stored in a \<open>uint16_t\<close>.\<close>

definition rx_u16 :: "lwcell_mqtt_client_t \<Rightarrow> nat \<Rightarrow> u16" where
  "rx_u16 c i = push_bit 8 (ucast (rx_buff c i)) OR ucast (rx_buff c (i + 1))"

text \<open>
  The branch of \<open>prv_mqtt_process_incoming_message\<close> for SUBACK, UNSUBACK, PUBACK and
  PUBCOMP: the pending request with the packet identifier of the message is looked up, the user
  is told, the request is deleted. Without such a request only a debug message is printed.
\<close>

definition process_final_ack :: "lwcell_mqtt_client_t \<Rightarrow> mqtt_msg_type_t \<Rightarrow> lwcell_mqtt_client_t" where
  "process_final_ack c msg_type =
     (let pkt_id = rx_u16 c 0 in
      case prv_request_get_pending c (uint pkt_id) of
        Some i \<Rightarrow>
          let c1 =
            (if msg_type = MQTT_MSG_TYPE_SUBACK \<or> msg_type = MQTT_MSG_TYPE_UNSUBACK then
               evt_fn c
                 ((if msg_type = MQTT_MSG_TYPE_SUBACK then LWCELL_MQTT_EVT_SUBSCRIBE
                   else LWCELL_MQTT_EVT_UNSUBSCRIBE)
                    (arg (requests c ! i))
                    (if rx_buff c 2 < 3 then lwcellOK else lwcellERR))
             else if msg_type = MQTT_MSG_TYPE_PUBCOMP \<or> msg_type = MQTT_MSG_TYPE_PUBACK then
               evt_fn c (LWCELL_MQTT_EVT_PUBLISH (arg (requests c ! i)) lwcellOK)
             else c)
          in prv_request_delete c1 i
      | None \<Rightarrow> c)"

text \<open>
  \<open>prv_mqtt_process_incoming_message\<close>. \<open>send_ok\<close> is the outcome of the one
  \<open>lwcell_conn_send\<close> an acknowledgement may lead to. The status of a CONNACK is the byte
  \<open>rx_buff[1]\<close> cast to the status enumeration; its accepted value
  \<open>LWCELL_MQTT_CONN_STATUS_ACCEPTED\<close> is modelled from the spec as 0 (the header that declares
  it is not among the files).
\<close>

definition prv_mqtt_process_incoming_message ::
  "lwcell_mqtt_client_t \<Rightarrow> bool \<Rightarrow> u8 \<times> lwcell_mqtt_client_t" where
  "prv_mqtt_process_incoming_message c send_ok =
     (case MQTT_RCV_GET_PACKET_TYPE (msg_hdr_byte c) of
        Some MQTT_MSG_TYPE_CONNACK \<Rightarrow>
          (let err = uint (rx_buff c 1) in
           if conn_state c = LWCELL_MQTT_CONNECTING then
             let c1 = (if err = 0 then c\<lparr>conn_state := LWCELL_MQTT_CONNECTED\<rparr> else c) in
             (1, evt_fn c1 (LWCELL_MQTT_EVT_CONNECT err))
           else (1, c))
      | Some MQTT_MSG_TYPE_PUBLISH \<Rightarrow>
          (let qos = MQTT_RCV_GET_PACKET_QOS (msg_hdr_byte c);
               dup = MQTT_RCV_GET_PACKET_DUP (msg_hdr_byte c);
               retain = MQTT_RCV_GET_PACKET_RETAIN (msg_hdr_byte c);
               topic_len = rx_u16 c 0;
               data = 2 + unat topic_len + (if qos > 0 then 2 else 0);
               pkt_id = (if qos > 0 then rx_u16 c (2 + unat topic_len) else 0);
               data_len = (ucast (msg_rem_len c - of_nat data) :: u16);
               c1 = (if qos > 0 then
                       snd (prv_write_ack_rec_rel_resp c
                              (if qos = 1 then MQTT_MSG_TYPE_PUBACK else MQTT_MSG_TYPE_PUBREC)
                              pkt_id qos send_ok)
                     else c)
           in (1, evt_fn c1
                    (LWCELL_MQTT_EVT_PUBLISH_RECV
                       (map (rx_buff c) [2..<2 + unat topic_len])
                       (map (rx_buff c) [data..<data + unat data_len])
                       dup qos retain)))
      | Some MQTT_MSG_TYPE_PINGRESP \<Rightarrow> (1, evt_fn c LWCELL_MQTT_EVT_KEEP_ALIVE)
      | Some MQTT_MSG_TYPE_PUBREC \<Rightarrow>
          (1, snd (prv_write_ack_rec_rel_resp c MQTT_MSG_TYPE_PUBREL (rx_u16 c 0) 1 send_ok))
      | Some MQTT_MSG_TYPE_PUBREL \<Rightarrow>
          (1, snd (prv_write_ack_rec_rel_resp c MQTT_MSG_TYPE_PUBCOMP (rx_u16 c 0) 0 send_ok))
      | Some MQTT_MSG_TYPE_SUBACK \<Rightarrow> (1, process_final_ack c MQTT_MSG_TYPE_SUBACK)
      | Some MQTT_MSG_TYPE_UNSUBACK \<Rightarrow> (1, process_final_ack c MQTT_MSG_TYPE_UNSUBACK)
      | Some MQTT_MSG_TYPE_PUBACK \<Rightarrow> (1, process_final_ack c MQTT_MSG_TYPE_PUBACK)
      | Some MQTT_MSG_TYPE_PUBCOMP \<Rightarrow> (1, process_final_ack c MQTT_MSG_TYPE_PUBCOMP)
      | _ \<Rightarrow> (0, c))"

subsection \<open>Incoming parser: the remaining length\<close>

text \<open>
  The \<open>MQTT_PARSER_STATE_INIT\<close> case of \<open>prv_mqtt_parse_incoming\<close> for the byte \<open>ch\<close>.
\<close>

definition parser_init :: "lwcell_mqtt_client_t \<Rightarrow> u8 \<Rightarrow> lwcell_mqtt_client_t" where
  "parser_init c ch =
     c\<lparr>msg_hdr_byte := ch, msg_rem_len := 0, msg_rem_len_mult := 0, msg_curr_pos := 0,
       parser_state := MQTT_PARSER_STATE_CALC_REM_LEN\<rparr>"

text \<open>
  The accumulation of the \<open>MQTT_PARSER_STATE_CALC_REM_LEN\<close> case:
  \<open>msg_rem_len |= (ch & 0x7F) << (7 * msg_rem_len_mult); ++msg_rem_len_mult\<close>.
\<close>

definition calc_rem_len_byte :: "lwcell_mqtt_client_t \<Rightarrow> u8 \<Rightarrow> lwcell_mqtt_client_t" where
  "calc_rem_len_byte c ch =
     c\<lparr>msg_rem_len := msg_rem_len c OR push_bit (7 * unat (msg_rem_len_mult c)) (ucast (ch AND 0x7F)),
       msg_rem_len_mult := msg_rem_len_mult c + 1\<rparr>"

text \<open>
  The parser in state \<open>MQTT_PARSER_STATE_CALC_REM_LEN\<close> over the bytes of a linear block, up
  to and including the byte whose continuation bit is clear: the client at that point and the
  bytes that follow, or \<open>None\<close> when the block ends inside the length.
\<close>

fun calc_rem_len :: "lwcell_mqtt_client_t \<Rightarrow> u8 list \<Rightarrow> (lwcell_mqtt_client_t \<times> u8 list) option" where
  "calc_rem_len c [] = None"
| "calc_rem_len c (ch # d) =
     (let c1 = calc_rem_len_byte c ch in
      if ch AND 0x80 = 0 then Some (c1, d) else calc_rem_len c1 d)"

subsection \<open>Incoming parser\<close>

text \<open>
  The body of the \<open>for\<close> loop of \<open>prv_mqtt_parse_incoming\<close> for the byte at index
  \<open>idx\<close> of a linear block: \<open>d\<close> is the pointer to the block, modelled as the bytes found
  at each offset from it, and \<open>buff_len\<close> the length of the block. The result is the client
  and the amount the body adds to \<open>idx\<close> (the remaining length, on the zero-copy path where
  \<open>rx_buff\<close> is pointed at \<open>&d[idx + 1]\<close> for the call of the dispatcher). \<open>send_ok\<close> is
  the outcome of the \<open>lwcell_conn_send\<close> calls the dispatcher leads to. \<open>size_t\<close> values are
  natural numbers.
\<close>

definition parse_byte ::
  "lwcell_mqtt_client_t \<Rightarrow> (nat \<Rightarrow> u8) \<Rightarrow> nat \<Rightarrow> nat \<Rightarrow> bool \<Rightarrow> lwcell_mqtt_client_t \<times> nat" where
  "parse_byte c d buff_len idx send_ok =
     (let ch = d idx in
      if parser_state c = MQTT_PARSER_STATE_INIT then (parser_init c ch, 0)
      else if parser_state c = MQTT_PARSER_STATE_CALC_REM_LEN then
        (let c1 = calc_rem_len_byte c ch in
         if ch AND 0x80 = 0 then
           (if msg_rem_len c1 > 0 then
              (if buff_len - idx > unat (msg_rem_len c1) then
                 (let c2 = snd (prv_mqtt_process_incoming_message
                                  (c1\<lparr>rx_buff := (\<lambda>i. d (idx + 1 + i)),
                                      rx_buff_len := unat (msg_rem_len c1)\<rparr>) send_ok)
                  in (c2\<lparr>rx_buff := rx_buff c1, rx_buff_len := rx_buff_len c1,
                         parser_state := MQTT_PARSER_STATE_INIT\<rparr>,
                      unat (msg_rem_len c2)))
               else (c1\<lparr>parser_state := MQTT_PARSER_STATE_READ_REM\<rparr>, 0))
            else
              ((snd (prv_mqtt_process_incoming_message c1 send_ok))
                 \<lparr>parser_state := MQTT_PARSER_STATE_INIT\<rparr>, 0))
         else (c1, 0))
      else if parser_state c = MQTT_PARSER_STATE_READ_REM then
        (let c1 = (if unat (msg_curr_pos c) < rx_buff_len c
                   then c\<lparr>rx_buff := (rx_buff c)(unat (msg_curr_pos c) := ch)\<rparr> else c);
             c2 = c1\<lparr>msg_curr_pos := msg_curr_pos c1 + 1\<rparr>
         in if msg_curr_pos c2 = msg_rem_len c2 then
              ((if unat (msg_curr_pos c2) \<le> rx_buff_len c2
                then snd (prv_mqtt_process_incoming_message c2 send_ok) else c2)
                 \<lparr>parser_state := MQTT_PARSER_STATE_INIT\<rparr>, 0)
            else (c2, 0))
      else (c\<lparr>parser_state := MQTT_PARSER_STATE_INIT\<rparr>, 0))"

text \<open>
  The \<open>for\<close> loop of \<open>prv_mqtt_parse_incoming\<close> over one linear block, from index
  \<open>idx\<close>.
\<close>

function parse_block ::
  "lwcell_mqtt_client_t \<Rightarrow> (nat \<Rightarrow> u8) \<Rightarrow> nat \<Rightarrow> nat \<Rightarrow> bool \<Rightarrow> lwcell_mqtt_client_t" where
  "parse_block c d buff_len idx send_ok =
     (if idx < buff_len then
        (case parse_byte c d buff_len idx send_ok of
           (c', skip) \<Rightarrow> parse_block c' d buff_len (idx + skip + 1) send_ok)
      else c)"
  by pat_completeness auto
termination
  by (relation "measure (\<lambda>(c, d, buff_len, idx, send_ok). buff_len - idx)") auto

declare parse_block.simps [simp del]

text \<open>
  Modelled from the spec: the received buffer \<open>pbuf\<close> is a chain of linear blocks and
  \<open>lwcell_pbuf_get_linear_addr\<close>, which is not among the files, gives for an offset the
  pointer to the block that starts there and its length, and \<open>NULL\<close> behind the last block.
  A block is the pair of its pointer and its length.
\<close>

type_synonym linear_block = "(nat \<Rightarrow> u8) \<times> nat"

text \<open>
  The \<open>do ... while (buff_len > 0)\<close> loop of \<open>prv_mqtt_parse_incoming\<close> over the blocks
  that are left.
\<close>

fun parse_blocks :: "lwcell_mqtt_client_t \<Rightarrow> linear_block list \<Rightarrow> bool \<Rightarrow> lwcell_mqtt_client_t" where
  "parse_blocks c [] send_ok = c"
| "parse_blocks c ((d, buff_len) # pbuf) send_ok =
     (let c1 = parse_block c d buff_len 0 send_ok in
      if buff_len > 0 then parse_blocks c1 pbuf send_ok else c1)"

text \<open>\<open>prv_mqtt_parse_incoming\<close>; it always returns 0.\<close>

definition prv_mqtt_parse_incoming ::
  "lwcell_mqtt_client_t \<Rightarrow> linear_block list \<Rightarrow> bool \<Rightarrow> u8 \<times> lwcell_mqtt_client_t" where
  "prv_mqtt_parse_incoming c pbuf send_ok = (0, parse_blocks c pbuf send_ok)"

subsection \<open>Transport callbacks\<close>

lemma find_pending_Some:
  "find_pending rs p = Some i \<Longrightarrow> i < length rs \<and> status (rs ! i) AND MQTT_REQUEST_FLAG_PENDING \<noteq> 0"
proof (induction rs arbitrary: i)
  case Nil
  then show ?case by simp
next
  case (Cons r rs)
  then show ?case by (auto split: if_splits)
qed

lemma pending_count_delete:
  "i < length rs \<Longrightarrow> status (rs ! i) AND MQTT_REQUEST_FLAG_PENDING \<noteq> 0 \<Longrightarrow>
   pending_count (rs[i := (rs ! i)\<lparr>status := 0\<rparr>]) < pending_count rs"
proof (induction rs arbitrary: i)
  case Nil
  then show ?case by simp
next
  case (Cons r rs)
  show ?case
  proof (cases i)
    case 0
    with Cons.prems show ?thesis by (simp add: pending_count_def)
  next
    case (Suc j)
    with Cons.prems Cons.IH[of j] show ?thesis by (simp add: pending_count_def)
  qed
qed

lemma pending_count_retire:
  "prv_request_get_pending c p = Some i \<Longrightarrow>
   pending_count (requests (evt_fn (prv_request_delete c i) e)) < pending_count (requests c)"
  using find_pending_Some[of "requests c" p i] pending_count_delete[of i "requests c"]
  by (simp add: prv_request_get_pending_def prv_request_delete_def evt_fn_def)

text \<open>
  The while loop of \<open>prv_mqtt_data_sent_cb\<close>: as long as the first pending request with
  packet identifier 0 has \<open>expected_sent_len \<le> sent_total\<close>, it is deleted and the user gets
  a PUBLISH event with \<open>lwcellOK\<close>.
\<close>

function sent_retire :: "lwcell_mqtt_client_t \<Rightarrow> lwcell_mqtt_client_t" where
  "sent_retire c =
     (case prv_request_get_pending c 0 of
        None \<Rightarrow> c
      | Some i \<Rightarrow>
          if sent_total c \<ge> expected_sent_len (requests c ! i) then
            sent_retire (evt_fn (prv_request_delete c i)
                           (LWCELL_MQTT_EVT_PUBLISH (arg (requests c ! i)) lwcellOK))
          else c)"
  by pat_completeness auto
termination
  by (relation "measure (\<lambda>c. pending_count (requests c))") (auto simp: pending_count_retire)

declare sent_retire.simps [simp del]

text \<open>
  \<open>prv_mqtt_data_sent_cb\<close>; \<open>close_res\<close> is what \<open>lwcell_conn_close\<close> returns if it is
  called, \<open>send_ok\<close> the outcome of the \<open>lwcell_conn_send\<close> of the final flush.
\<close>

definition prv_mqtt_data_sent_cb ::
  "lwcell_mqtt_client_t \<Rightarrow> nat \<Rightarrow> bool \<Rightarrow> lwcellr_t \<Rightarrow> bool \<Rightarrow> u8 \<times> lwcell_mqtt_client_t" where
  "prv_mqtt_data_sent_cb c sent_len successful close_res send_ok =
     (let c1 = c\<lparr>is_sending := 0, sent_total := sent_total c + of_nat sent_len, poll_time := 0\<rparr> in
      if \<not> successful then (0, snd (prv_mqtt_close c1 close_res))
      else
        (1, prv_send_data
              (sent_retire (c1\<lparr>tx_buff := lwcell_buff_skip (tx_buff c1) sent_len\<rparr>))
              send_ok))"

text \<open>
  \<open>prv_mqtt_poll_cb\<close>; \<open>interval\<close> is \<open>LWCELL_CFG_CONN_POLL_INTERVAL\<close>, whose value is
  configuration. Both sides of the comparison are \<open>uint32_t\<close>.
\<close>

definition prv_mqtt_poll_cb ::
  "lwcell_mqtt_client_t \<Rightarrow> u32 \<Rightarrow> bool \<Rightarrow> u8 \<times> lwcell_mqtt_client_t" where
  "prv_mqtt_poll_cb c interval send_ok =
     (let c1 = c\<lparr>poll_time := poll_time c + 1\<rparr> in
      if conn_state c1 = LWCELL_MQTT_CONN_DISCONNECTING then (0, c1)
      else if keep_alive c1 \<noteq> 0 \<and> poll_time c1 * interval \<ge> (ucast (keep_alive c1) * 1000 :: u32) then
        (if prv_output_check_enough_memory c1 0 \<noteq> 0 then
           (1, (prv_send_data (prv_write_fixed_header c1 MQTT_MSG_TYPE_PINGREQ 0 0 0 0) send_ok)
                 \<lparr>poll_time := 0\<rparr>)
         else (1, c1))
      else (1, c1))"

text \<open>
  The while loop of \<open>prv_mqtt_closed_cb\<close>: every pending request is deleted and reported to
  the user with an error event.
\<close>

function closed_retire :: "lwcell_mqtt_client_t \<Rightarrow> lwcell_mqtt_client_t" where
  "closed_retire c =
     (case prv_request_get_pending c (- 1) of
        None \<Rightarrow> c
      | Some i \<Rightarrow>
          closed_retire (prv_request_send_err_callback (prv_request_delete c i)
                           (status (requests c ! i)) (arg (requests c ! i))))"
  by pat_completeness auto
termination
  apply (relation "measure (\<lambda>c. pending_count (requests c))")
   apply simp
  apply (auto simp: prv_request_send_err_callback_def pending_count_retire)
  done

declare closed_retire.simps [simp del]

text \<open>The request that \<open>LWCELL_MEMSET(client->requests, 0x00, ...)\<close> leaves in every slot.\<close>

definition zero_request :: lwcell_mqtt_request_t where
  "zero_request =
     \<lparr>status = 0, packet_id = 0, arg = 0, expected_sent_len = 0, timeout_start_time = 0\<rparr>"

text \<open>\<open>LWCELL_MEMSET(client->requests, 0x00, sizeof(client->requests))\<close>.\<close>

definition memset_requests :: "lwcell_mqtt_client_t \<Rightarrow> lwcell_mqtt_client_t" where
  "memset_requests c = c\<lparr>requests := map (\<lambda>_. zero_request) (requests c)\<rparr>"

text \<open>
  The end of \<open>prv_mqtt_closed_cb\<close>: the send state and the parser state are cleared and the
  TX buffer is reset.
\<close>

definition closed_reset :: "lwcell_mqtt_client_t \<Rightarrow> lwcell_mqtt_client_t" where
  "closed_reset c =
     c\<lparr>is_sending := 0, sent_total := 0, written_total := 0,
       parser_state := MQTT_PARSER_STATE_INIT,
       tx_buff := lwcell_buff_reset (tx_buff c)\<rparr>"

definition prv_mqtt_closed_cb :: "lwcell_mqtt_client_t \<Rightarrow> u8 \<times> lwcell_mqtt_client_t" where
  "prv_mqtt_closed_cb c =
     (let state = conn_state c in
      (1, closed_reset
            (memset_requests
              (closed_retire
                (evt_fn (c\<lparr>conn_state := LWCELL_MQTT_CONN_DISCONNECTED\<rparr>)
                   (LWCELL_MQTT_EVT_DISCONNECT
                      (state = LWCELL_MQTT_CONNECTED \<or> state = LWCELL_MQTT_CONN_DISCONNECTING)))))))"

subsection \<open>Concrete clients\<close>

text \<open>
  A client as \<open>lwcell_mqtt_client_new\<close> and a completed connect leave it: session
  established, nothing queued, no request in use. \<open>n\<close> is the capacity of the TX ring and
  \<open>k\<close> the number of request slots.
\<close>

definition connected_client :: "nat \<Rightarrow> nat \<Rightarrow> lwcell_mqtt_client_t" where
  "connected_client n k =
     \<lparr>conn_state = LWCELL_MQTT_CONNECTED, keep_alive = 10, poll_time = 0, evts = [],
      tx_buff = \<lparr>b_size = n, b_r = 0, b_data = []\<rparr>,
      is_sending = 0, sent_total = 0, written_total = 0, last_packet_id = 0,
      requests = replicate k zero_request,
      rx_buff = (\<lambda>_. 0), rx_buff_len = 0,
      parser_state = MQTT_PARSER_STATE_INIT, msg_hdr_byte = 0, msg_rem_len = 0,
      msg_rem_len_mult = 0, msg_curr_pos = 0\<rparr>"

text \<open>
  A client that has just parsed a CONNACK (header byte 0x20, remaining length 2) whose second
  body byte is \<open>code\<close>, in session state \<open>st\<close>.
\<close>

definition connack_client :: "lwcell_mqtt_state_t \<Rightarrow> u8 \<Rightarrow> lwcell_mqtt_client_t" where
  "connack_client st code =
     (connected_client 32 2)\<lparr>conn_state := st, msg_hdr_byte := 0x20, msg_rem_len := 2,
        rx_buff := (\<lambda>i. if i = 1 then code else 0)\<rparr>"

text \<open>A client whose transport is closed.\<close>

definition disconnected_client :: lwcell_mqtt_client_t where
  "disconnected_client = (connected_client 32 2)\<lparr>conn_state := LWCELL_MQTT_CONN_DISCONNECTED\<rparr>"

text \<open>
  A connected client with two request slots, both in use and pending (a SUBSCRIBE with
  identifier 1 and a PUBLISH with identifier 2), and an empty TX ring of capacity 32.
\<close>

definition full_client :: lwcell_mqtt_client_t where
  "full_client =
     (connected_client 32 2)\<lparr>requests :=
        [\<lparr>status = 0x07, packet_id = 1, arg = 11, expected_sent_len = 0, timeout_start_time = 0\<rparr>,
         \<lparr>status = 0x03, packet_id = 2, arg = 12, expected_sent_len = 0, timeout_start_time = 0\<rparr>],
        last_packet_id := 2\<rparr>"

text \<open>
  The entry points as events, with the values the environment supplies to each: the three API
  calls, a packet that the parser has assembled (header byte, remaining length and body) and
  hands to the dispatcher, and the transport events poll, send-complete and closed. A run of
  the client is a list of events; \<open>interval\<close> is \<open>LWCELL_CFG_CONN_POLL_INTERVAL\<close>.
\<close>

datatype conn_event =
    EV_PUBLISH "u8 list" "(nat \<Rightarrow> u8) option" u16 u8 u8 nat u32 bool
  | EV_SUBSCRIBE "u8 list" u8 nat u32 bool
  | EV_UNSUBSCRIBE "u8 list" nat u32 bool
  | EV_PACKET u8 u32 "nat \<Rightarrow> u8" bool
  | EV_POLL bool
  | EV_SENT nat bool lwcellr_t bool
  | EV_CLOSED

fun client_step :: "u32 \<Rightarrow> lwcell_mqtt_client_t \<Rightarrow> conn_event \<Rightarrow> lwcell_mqtt_client_t" where
  "client_step interval c (EV_PUBLISH topic payload payload_len qos retain a now send_ok) =
     snd (lwcell_mqtt_client_publish c topic payload payload_len qos retain a now send_ok)"
| "client_step interval c (EV_SUBSCRIBE topic qos a now send_ok) =
     snd (lwcell_mqtt_client_subscribe c topic qos a now send_ok)"
| "client_step interval c (EV_UNSUBSCRIBE topic a now send_ok) =
     snd (lwcell_mqtt_client_unsubscribe c topic a now send_ok)"
| "client_step interval c (EV_PACKET hdr rem_len body send_ok) =
     snd (prv_mqtt_process_incoming_message
            (c\<lparr>msg_hdr_byte := hdr, msg_rem_len := rem_len, rx_buff := body\<rparr>) send_ok)"
| "client_step interval c (EV_POLL send_ok) = snd (prv_mqtt_poll_cb c interval send_ok)"
| "client_step interval c (EV_SENT sent_len successful close_res send_ok) =
     snd (prv_mqtt_data_sent_cb c sent_len successful close_res send_ok)"
| "client_step interval c EV_CLOSED = snd (prv_mqtt_closed_cb c)"

definition client_run :: "u32 \<Rightarrow> lwcell_mqtt_client_t \<Rightarrow> conn_event list \<Rightarrow> lwcell_mqtt_client_t" where
  "client_run interval c evs = foldl (client_step interval) c evs"

fun is_sent :: "conn_event \<Rightarrow> bool" where
  "is_sent (EV_SENT sent_len successful close_res send_ok) = True"
| "is_sent _ = False"

fun is_poll :: "conn_event \<Rightarrow> bool" where
  "is_poll (EV_POLL send_ok) = True"
| "is_poll _ = False"

text \<open>
  A connected client with keep-alive 10 s that has counted 7 polls, and a run without
  send-complete events: a PINGRESP arrives, then 19 polls follow.
\<close>

definition polled_client :: lwcell_mqtt_client_t where
  "polled_client = (connected_client 32 2)\<lparr>poll_time := 7\<rparr>"

definition quiet_run :: "conn_event list" where
  "quiet_run = EV_PACKET 0xD0 0 (\<lambda>_. 0) True # replicate 19 (EV_POLL True)"

text \<open>A slot whose pending bit is set.\<close>

definition is_pending :: "lwcell_mqtt_request_t \<Rightarrow> bool" where
  "is_pending r = (status r AND MQTT_REQUEST_FLAG_PENDING \<noteq> 0)"

text \<open>
  The error event of a request's kind: SUBSCRIBE when the subscribe bit of its status is set,
  else UNSUBSCRIBE when the unsubscribe bit is set, else PUBLISH; with the request's user
  argument and the result \<open>lwcellERR\<close>.
\<close>

definition error_evt :: "lwcell_mqtt_request_t \<Rightarrow> lwcell_mqtt_evt_t" where
  "error_evt r =
     (if status r AND MQTT_REQUEST_FLAG_SUBSCRIBE \<noteq> 0 then LWCELL_MQTT_EVT_SUBSCRIBE (arg r) lwcellERR
      else if status r AND MQTT_REQUEST_FLAG_UNSUBSCRIBE \<noteq> 0 then LWCELL_MQTT_EVT_UNSUBSCRIBE (arg r) lwcellERR
      else LWCELL_MQTT_EVT_PUBLISH (arg r) lwcellERR)"

text \<open>
  \<open>full_client\<close> while its transport is being closed, with a PINGREQ still queued in the TX
  ring and an earlier send of three bytes confirmed.
\<close>

definition closing_client :: lwcell_mqtt_client_t where
  "closing_client =
     full_client\<lparr>conn_state := LWCELL_MQTT_CONN_DISCONNECTING,
       tx_buff := \<lparr>b_size = 32, b_r = 3, b_data = [0xC0, 0x00]\<rparr>,
       is_sending := 1, sent_total := 3, written_total := 5\<rparr>"

text \<open>
  \<open>full_client\<close> after the parser has assembled a packet with header byte \<open>hdr\<close> and the
  body \<open>00 id_lsb code\<close>.
\<close>

definition suback_client :: "u8 \<Rightarrow> u8 \<Rightarrow> u8 \<Rightarrow> lwcell_mqtt_client_t" where
  "suback_client hdr id_lsb code =
     full_client\<lparr>msg_hdr_byte := hdr, msg_rem_len := 3,
       rx_buff := (\<lambda>i. if i = 1 then id_lsb else if i = 2 then code else 0)\<rparr>"

subsection \<open>Two runs of QoS-0 publishes and a run of a large publish\<close>

text \<open>The payload \<open>hi\<close>, a payload of full stops, and a SUBACK \<open>90 03 00 01 00\<close> as the
  parser hands it to the dispatcher.\<close>

definition payload_hi :: "nat \<Rightarrow> u8" where
  "payload_hi i = (if i = 0 then 0x68 else 0x69)"

definition payload_dots :: "nat \<Rightarrow> u8" where
  "payload_dots i = 0x2E"

definition suback_1 :: "lwcell_mqtt_client_t \<Rightarrow> lwcell_mqtt_client_t" where
  "suback_1 c = c\<lparr>msg_hdr_byte := 0x90, msg_rem_len := 3, rx_buff := (\<lambda>i. if i = 1 then 1 else 0)\<rparr>"

text \<open>
  First run, on a connected client with a TX ring of 64 bytes and two request slots; every
  \<open>lwcell_conn_send\<close> succeeds and every send completes in full.
  \<^enum> subscribe to \<open>a\<close> (user argument 1): 8 bytes, slot 0, handed to the transport;
  \<^enum> the 8 bytes are reported sent;
  \<^enum> publish \<open>hi\<close> on \<open>t\<close> with QoS 0 (user argument 2): 7 bytes, slot 1, handed over;
  \<^enum> the SUBACK arrives and frees slot 0;
  \<^enum> publish \<open>hi\<close> on \<open>t\<close> with QoS 0 (user argument 3): 7 bytes, slot 0, queued;
  \<^enum> the 7 bytes of the first publish are reported sent;
  \<^enum> the 7 bytes of the second publish are reported sent.
\<close>

definition hol1 :: lwcell_mqtt_client_t where
  "hol1 = snd (lwcell_mqtt_client_subscribe (connected_client 64 2) [0x61] 0 1 0 True)"

definition hol2 :: lwcell_mqtt_client_t where
  "hol2 = snd (prv_mqtt_data_sent_cb hol1 8 True lwcellOK True)"

definition hol3 :: lwcell_mqtt_client_t where
  "hol3 = snd (lwcell_mqtt_client_publish hol2 [0x74] (Some payload_hi) 2 0 0 2 0 True)"

definition hol4 :: lwcell_mqtt_client_t where
  "hol4 = snd (prv_mqtt_process_incoming_message (suback_1 hol3) True)"

definition hol5 :: lwcell_mqtt_client_t where
  "hol5 = snd (lwcell_mqtt_client_publish hol4 [0x74] (Some payload_hi) 2 0 0 3 0 True)"

definition hol6 :: lwcell_mqtt_client_t where
  "hol6 = snd (prv_mqtt_data_sent_cb hol5 7 True lwcellOK True)"

definition hol7 :: lwcell_mqtt_client_t where
  "hol7 = snd (prv_mqtt_data_sent_cb hol6 7 True lwcellOK True)"

text \<open>
  Second run, on a connected client with a TX ring of 32 bytes and three request slots; again
  every send succeeds and completes in full.
  \<^enum> publish eight full stops on \<open>t\<close> with QoS 0 (user argument 1): 13 bytes, handed over;
  \<^enum> subscribe to \<open>a\<close> (user argument 2): 8 bytes, queued behind the send in flight;
  \<^enum> the 13 bytes are reported sent; the 8 queued bytes are handed over;
  \<^enum> publish \<open>hi\<close> on \<open>t\<close> with QoS 0 (user argument 3): 7 bytes, queued;
  \<^enum> publish \<open>hi\<close> on \<open>t\<close> with QoS 0 (user argument 4): 7 bytes, queued across the
    end of the ring;
  \<^enum> the 8 bytes are reported sent; the 11 bytes up to the end of the ring are handed over;
  \<^enum> the 11 bytes are reported sent.
\<close>

definition early1 :: lwcell_mqtt_client_t where
  "early1 = snd (lwcell_mqtt_client_publish (connected_client 32 3) [0x74] (Some payload_dots) 8 0 0 1 0 True)"

definition early2 :: lwcell_mqtt_client_t where
  "early2 = snd (lwcell_mqtt_client_subscribe early1 [0x61] 0 2 0 True)"

definition early3 :: lwcell_mqtt_client_t where
  "early3 = snd (prv_mqtt_data_sent_cb early2 13 True lwcellOK True)"

definition early4 :: lwcell_mqtt_client_t where
  "early4 = snd (lwcell_mqtt_client_publish early3 [0x74] (Some payload_hi) 2 0 0 3 0 True)"

definition early5 :: lwcell_mqtt_client_t where
  "early5 = snd (lwcell_mqtt_client_publish early4 [0x74] (Some payload_hi) 2 0 0 4 0 True)"

definition early6 :: lwcell_mqtt_client_t where
  "early6 = snd (prv_mqtt_data_sent_cb early5 8 True lwcellOK True)"

definition early7 :: lwcell_mqtt_client_t where
  "early7 = snd (prv_mqtt_data_sent_cb early6 11 True lwcellOK True)"

text \<open>The state of the keep-alive timer: the poll counter and the keep-alive interval.\<close>

definition timer_of :: "lwcell_mqtt_client_t \<Rightarrow> u32 \<times> u16" where
  "timer_of c = (poll_time c, keep_alive c)"

text \<open>The bytes of a PUBLISH packet as \<open>lwcell_mqtt_client_publish\<close> writes them.\<close>

definition publish_packet ::
  "u8 list \<Rightarrow> (nat \<Rightarrow> u8) option \<Rightarrow> u16 \<Rightarrow> u8 \<Rightarrow> u8 \<Rightarrow> u16 \<Rightarrow> u8 list" where
  "publish_packet topic payload payload_len qos retain pkt_id =
     (let len_topic = (of_nat (length topic) :: u16);
          rem_len = (2 + ucast len_topic + (if payload \<noteq> None then ucast payload_len else 0)
                       + (if qos > 0 then 2 else 0) :: u32)
      in fixed_header_byte MQTT_MSG_TYPE_PUBLISH 0 (min qos LWCELL_MQTT_QOS_EXACTLY_ONCE) retain
           # rem_len_bytes (ucast rem_len)
           @ [ucast (drop_bit 8 len_topic), ucast (len_topic AND 0xFF)] @ take (unat len_topic) topic
           @ (if qos \<noteq> 0 then [ucast (drop_bit 8 pkt_id), ucast (pkt_id AND 0xFF)] else [])
           @ (case payload of Some p \<Rightarrow> map p [0..<unat payload_len] | None \<Rightarrow> []))"

subsection \<open>A received UNSUBACK\<close>

text \<open>
  Memory that holds the bytes \<open>xs\<close> from offset 0 and the byte \<open>past\<close> at every offset
  behind them.
\<close>

definition block_of :: "u8 list \<Rightarrow> u8 \<Rightarrow> nat \<Rightarrow> u8" where
  "block_of xs past i = (if i < length xs then xs ! i else past)"

text \<open>
  A connected client (TX ring of 64 bytes, two request slots) after
  \<open>lwcell_mqtt_client_unsubscribe\<close> for the topic \<open>a\<close> with user argument 7 and the
  send-complete event for the 7 bytes of the UNSUBSCRIBE packet.
\<close>

definition unsub_client :: lwcell_mqtt_client_t where
  "unsub_client =
     snd (prv_mqtt_data_sent_cb
            (snd (lwcell_mqtt_client_unsubscribe (connected_client 64 2) [0x61] 7 0 True))
            7 True lwcellOK True)"

section \<open>Packet identifiers are never 0\<close>

lemma u16_succ_eq_0: "(x :: u16) + 1 = 0 \<longleftrightarrow> x = 65535"
proof -
  have "x + 1 = 0 \<longleftrightarrow> x = - 1" by (simp add: eq_neg_iff_add_eq_0)
  moreover have "(- 1 :: u16) = 65535" by simp
  ultimately show ?thesis by simp
qed

lemma packet_id_neq_0: "fst (prv_create_packet_id c) \<noteq> 0"
  by (simp add: prv_create_packet_id_def Let_def)

lemma packet_ids_nonzero: "0 \<notin> set (packet_ids n c)"
proof (induction n arbitrary: c)
  case 0
  show ?case by simp
next
  case (Suc n)
  obtain i c' where p: "prv_create_packet_id c = (i, c')" by (cases "prv_create_packet_id c")
  have "i \<noteq> 0" using packet_id_neq_0 [of c] p by simp
  with Suc p show ?case by simp
qed

text \<open>
  C7. Whatever the counter holds, \<open>prv_create_packet_id\<close> returns a nonzero identifier and
  leaves it in the counter; the identifier is the counter plus one, except that the counter
  65535 gives 1; and no identifier in any run of \<open>n\<close> successive calls is 0.
\<close>

theorem packet_id_never_zero:
  "fst (prv_create_packet_id c) \<noteq> 0
   \<and> last_packet_id (snd (prv_create_packet_id c)) = fst (prv_create_packet_id c)
   \<and> (last_packet_id c \<noteq> 65535 \<longrightarrow> fst (prv_create_packet_id c) = last_packet_id c + 1)
   \<and> (last_packet_id c = 65535 \<longrightarrow> fst (prv_create_packet_id c) = 1)
   \<and> 0 \<notin> set (packet_ids n c)"
  using packet_ids_nonzero[of n c]
  by (simp add: prv_create_packet_id_def Let_def u16_succ_eq_0)

theorem packet_id_never_zero_witness:
  "fst (prv_create_packet_id (connected_client 32 2)) = 1
   \<and> fst (prv_create_packet_id ((connected_client 32 2)\<lparr>last_packet_id := 65535\<rparr>)) = 1
   \<and> 0 \<notin> set (packet_ids 3 ((connected_client 32 2)\<lparr>last_packet_id := 65534\<rparr>))
   \<and> packet_ids 3 ((connected_client 32 2)\<lparr>last_packet_id := 65534\<rparr>) = [65535, 1, 2]"
proof -
  have a: "packet_ids 3 ((connected_client 32 2)\<lparr>last_packet_id := 65534\<rparr>) = [65535, 1, 2]"
    by code_simp
  have b: "last_packet_id (connected_client 32 2) \<noteq> 65535"
    "last_packet_id (connected_client 32 2) + 1 = 1"
    "last_packet_id ((connected_client 32 2)\<lparr>last_packet_id := 65535\<rparr>) = 65535"
    by (simp_all add: connected_client_def)
  show ?thesis
    using packet_id_never_zero[of "connected_client 32 2" 0]
      packet_id_never_zero[of "(connected_client 32 2)\<lparr>last_packet_id := 65535\<rparr>" 0]
      packet_id_never_zero[of "(connected_client 32 2)\<lparr>last_packet_id := 65534\<rparr>" 3] a b
    by simp
qed

section \<open>CONNACK\<close>

text \<open>
  C5. For a CONNACK: in state \<open>LWCELL_MQTT_CONNECTING\<close> the byte \<open>rx_buff[1]\<close> is the
  return code, the state becomes \<open>LWCELL_MQTT_CONNECTED\<close> when the code is 0 and stays
  \<open>LWCELL_MQTT_CONNECTING\<close> otherwise, and one CONNECT event carrying the code is emitted;
  nothing else changes. In every other state the client is left as it was: no state change and
  no event.
\<close>

theorem connack_dispatch:
  assumes "MQTT_RCV_GET_PACKET_TYPE (msg_hdr_byte c) = Some MQTT_MSG_TYPE_CONNACK"
  shows "prv_mqtt_process_incoming_message c send_ok =
           (1, if conn_state c = LWCELL_MQTT_CONNECTING
               then c\<lparr>conn_state := (if rx_buff c 1 = 0 then LWCELL_MQTT_CONNECTED else LWCELL_MQTT_CONNECTING),
                      evts := evts c @ [LWCELL_MQTT_EVT_CONNECT (uint (rx_buff c 1))]\<rparr>
               else c)"
  using assms
  by (simp add: prv_mqtt_process_incoming_message_def evt_fn_def Let_def uint_0_iff)

theorem connack_dispatch_witness:
  "conn_state (snd (prv_mqtt_process_incoming_message (connack_client LWCELL_MQTT_CONNECTING 0) True))
     = LWCELL_MQTT_CONNECTED
   \<and> evts (snd (prv_mqtt_process_incoming_message (connack_client LWCELL_MQTT_CONNECTING 0) True))
     = [LWCELL_MQTT_EVT_CONNECT 0]
   \<and> conn_state (snd (prv_mqtt_process_incoming_message (connack_client LWCELL_MQTT_CONNECTING 5) True))
     = LWCELL_MQTT_CONNECTING
   \<and> evts (snd (prv_mqtt_process_incoming_message (connack_client LWCELL_MQTT_CONNECTING 5) True))
     = [LWCELL_MQTT_EVT_CONNECT 5]
   \<and> snd (prv_mqtt_process_incoming_message (connack_client LWCELL_MQTT_CONNECTED 0) True)
     = connack_client LWCELL_MQTT_CONNECTED 0"
proof -
  have t: "MQTT_RCV_GET_PACKET_TYPE (msg_hdr_byte (connack_client st code)) = Some MQTT_MSG_TYPE_CONNACK"
    for st code
    by (simp add: connack_client_def MQTT_RCV_GET_PACKET_TYPE_def)
  show ?thesis
    using connack_dispatch[OF t, of LWCELL_MQTT_CONNECTING 0 True]
      connack_dispatch[OF t, of LWCELL_MQTT_CONNECTING 5 True]
      connack_dispatch[OF t, of LWCELL_MQTT_CONNECTED 0 True]
    by (simp add: connack_client_def connected_client_def)
qed

section \<open>Publish on a client that is not connected\<close>

text \<open>
  C10, as stated, fails: the check of the topic length comes before the check of the session
  state, so a publish with an empty topic on a disconnected client returns the generic error.
\<close>

theorem publish_not_connected_counterexample:
  "fst (lwcell_mqtt_client_publish disconnected_client [] None 0 0 0 0 0 True) \<noteq> lwcellCLOSED"
  by (simp add: lwcell_mqtt_client_publish_def Let_def)

text \<open>
  C10, amended. On a client whose session state is not \<open>LWCELL_MQTT_CONNECTED\<close>, a publish
  returns \<open>lwcellCLOSED\<close> when the 16-bit length of the topic is not 0 and \<open>lwcellERR\<close> when
  it is 0; in both cases the client (TX buffer, request registry and packet identifier counter
  included) is left as it was.
\<close>

theorem publish_not_connected:
  assumes "conn_state c \<noteq> LWCELL_MQTT_CONNECTED"
  shows "lwcell_mqtt_client_publish c topic payload payload_len qos retain a now send_ok =
           (if (of_nat (length topic) :: u16) = 0 then lwcellERR else lwcellCLOSED, c)"
  using assms by (simp add: lwcell_mqtt_client_publish_def Let_def)

theorem publish_not_connected_witness:
  "lwcell_mqtt_client_publish disconnected_client [0x74] None 0 0 0 0 0 True
     = (lwcellCLOSED, disconnected_client)"
  using publish_not_connected[of disconnected_client "[0x74]" None 0 0 0 0 0 True]
  by (simp add: disconnected_client_def connected_client_def)

section \<open>A full request registry\<close>

lemma find_unused_None:
  "find_unused rs = None \<longleftrightarrow> (\<forall>r\<in>set rs. status r AND MQTT_REQUEST_FLAG_IN_USE \<noteq> 0)"
  by (induction rs) auto

lemma create_full:
  "\<forall>r\<in>set (requests c). status r AND MQTT_REQUEST_FLAG_IN_USE \<noteq> 0 \<Longrightarrow>
   prv_request_create c p a = (None, c)"
  using find_unused_None[of "requests c"] by (simp add: prv_request_create_def)

lemma create_packet_id_frame:
  "tx_buff (snd (prv_create_packet_id c)) = tx_buff c"
  "requests (snd (prv_create_packet_id c)) = requests c"
  by (simp_all add: prv_create_packet_id_def Let_def)

lemma sub_unsub_full:
  assumes "\<forall>r\<in>set (requests c). status r AND MQTT_REQUEST_FLAG_IN_USE \<noteq> 0"
  shows "fst (prv_sub_unsub c topic qos a sub now send_ok) = 0
       \<and> tx_buff (snd (prv_sub_unsub c topic qos a sub now send_ok)) = tx_buff c
       \<and> requests (snd (prv_sub_unsub c topic qos a sub now send_ok)) = requests c"
proof -
  obtain p c1 where p: "prv_create_packet_id c = (p, c1)" by (cases "prv_create_packet_id c")
  have f: "tx_buff c1 = tx_buff c" "requests c1 = requests c"
    using create_packet_id_frame[of c] p by simp_all
  have "prv_request_create c1 p a = (None, c1)"
    using create_full[of c1 p a] assms f by simp
  then show ?thesis using p f by (simp add: prv_sub_unsub_def Let_def)
qed

text \<open>
  C3, as stated, fails for subscribe (and unsubscribe): \<open>prv_sub_unsub\<close> reports every
  failure as 0 and the wrappers turn that into the generic \<open>lwcellERR\<close>.
\<close>

theorem registry_full_counterexample:
  "find_unused (requests full_client) = None
   \<and> fst (lwcell_mqtt_client_subscribe full_client [0x61] 0 13 0 True) \<noteq> lwcellERRMEM"
  by code_simp

text \<open>
  C3, amended. When every request slot is in use: publish returns \<open>lwcellERRMEM\<close> (on a
  connected client and for a topic of nonzero 16-bit length; the two earlier guards return
  \<open>lwcellERR\<close> for the empty topic and \<open>lwcellCLOSED\<close> for a client that is not connected),
  subscribe and unsubscribe return the generic \<open>lwcellERR\<close>, and none of the three changes
  the TX buffer.
\<close>

theorem registry_full:
  assumes "\<forall>r\<in>set (requests c). status r AND MQTT_REQUEST_FLAG_IN_USE \<noteq> 0"
  shows "fst (lwcell_mqtt_client_publish c topic payload payload_len qos retain a now send_ok)
           = (if (of_nat (length topic) :: u16) = 0 then lwcellERR
              else if conn_state c \<noteq> LWCELL_MQTT_CONNECTED then lwcellCLOSED
              else lwcellERRMEM)
       \<and> tx_buff (snd (lwcell_mqtt_client_publish c topic payload payload_len qos retain a now send_ok))
           = tx_buff c
       \<and> fst (lwcell_mqtt_client_subscribe c topic qos a now send_ok) = lwcellERR
       \<and> tx_buff (snd (lwcell_mqtt_client_subscribe c topic qos a now send_ok)) = tx_buff c
       \<and> fst (lwcell_mqtt_client_unsubscribe c topic a now send_ok) = lwcellERR
       \<and> tx_buff (snd (lwcell_mqtt_client_unsubscribe c topic a now send_ok)) = tx_buff c"
proof -
  obtain p c1 where p: "(if qos > 0 then prv_create_packet_id c else (0, c)) = (p, c1)"
    by (cases "if qos > 0 then prv_create_packet_id c else (0, c)")
  have f: "tx_buff c1 = tx_buff c" "requests c1 = requests c"
    using create_packet_id_frame[of c] p by (auto split: if_splits)
  have cr: "prv_request_create c1 p a = (None, c1)"
    using create_full[of c1 p a] assms f by simp
  have pub: "fst (lwcell_mqtt_client_publish c topic payload payload_len qos retain a now send_ok)
           = (if (of_nat (length topic) :: u16) = 0 then lwcellERR
              else if conn_state c \<noteq> LWCELL_MQTT_CONNECTED then lwcellCLOSED
              else lwcellERRMEM)
       \<and> tx_buff (snd (lwcell_mqtt_client_publish c topic payload payload_len qos retain a now send_ok))
           = tx_buff c"
    using p cr f unfolding lwcell_mqtt_client_publish_def Let_def by simp
  have sub: "fst (lwcell_mqtt_client_subscribe c topic qos a now send_ok) = lwcellERR
       \<and> tx_buff (snd (lwcell_mqtt_client_subscribe c topic qos a now send_ok)) = tx_buff c"
    using sub_unsub_full[OF assms, of topic qos a 1 now send_ok]
    by (cases "prv_sub_unsub c topic qos a 1 now send_ok") (simp add: lwcell_mqtt_client_subscribe_def)
  have unsub: "fst (lwcell_mqtt_client_unsubscribe c topic a now send_ok) = lwcellERR
       \<and> tx_buff (snd (lwcell_mqtt_client_unsubscribe c topic a now send_ok)) = tx_buff c"
    using sub_unsub_full[OF assms, of topic 0 a 0 now send_ok]
    by (cases "prv_sub_unsub c topic 0 a 0 now send_ok") (simp add: lwcell_mqtt_client_unsubscribe_def)
  show ?thesis using pub sub unsub by simp
qed

theorem registry_full_witness:
  "fst (lwcell_mqtt_client_publish full_client [0x74] None 0 0 0 13 0 True) = lwcellERRMEM
   \<and> fst (lwcell_mqtt_client_subscribe full_client [0x61] 0 13 0 True) = lwcellERR
   \<and> fst (lwcell_mqtt_client_unsubscribe full_client [0x61] 13 0 True) = lwcellERR
   \<and> b_data (tx_buff (snd (lwcell_mqtt_client_publish full_client [0x74] None 0 0 0 13 0 True))) = []"
proof -
  have h: "\<forall>r\<in>set (requests full_client). status r AND MQTT_REQUEST_FLAG_IN_USE \<noteq> 0"
    by (simp add: full_client_def MQTT_REQUEST_FLAG_IN_USE_def)
  have s: "conn_state full_client = LWCELL_MQTT_CONNECTED" "b_data (tx_buff full_client) = []"
    by (simp_all add: full_client_def connected_client_def)
  show ?thesis
    using registry_full[OF h, of "[0x74]" None 0 0 0 13 0 True]
          registry_full[OF h, of "[0x61]" None 0 0 0 13 0 True] s
    by simp
qed

section \<open>The transport-closed handler\<close>

lemma find_pending_any_None:
  "find_pending rs (- 1) = None \<Longrightarrow> filter is_pending rs = []"
  by (induction rs) (auto simp: is_pending_def split: if_splits)

lemma find_pending_any_Some:
  "find_pending rs (- 1) = Some i \<Longrightarrow>
   filter is_pending rs = (rs ! i) # filter is_pending (rs[i := (rs ! i)\<lparr>status := 0\<rparr>])"
proof (induction rs arbitrary: i)
  case Nil
  then show ?case by simp
next
  case (Cons r rs)
  show ?case
  proof (cases "status r AND MQTT_REQUEST_FLAG_PENDING \<noteq> 0")
    case True
    with Cons.prems have "i = 0" by simp
    with True show ?thesis by (simp add: is_pending_def)
  next
    case False
    with Cons.prems obtain j where j: "find_pending rs (- 1) = Some j" "i = Suc j" by auto
    with False Cons.IH[of j] show ?thesis by (simp add: is_pending_def)
  qed
qed

lemma err_callback_eq:
  "prv_request_send_err_callback c (status r) (arg r) = c\<lparr>evts := evts c @ [error_evt r]\<rparr>"
  by (simp add: prv_request_send_err_callback_def error_evt_def evt_fn_def)

lemma closed_retire_eq:
  "closed_retire c =
     c\<lparr>evts := evts c @ map error_evt (filter is_pending (requests c)),
       requests := requests (closed_retire c)\<rparr>
   \<and> length (requests (closed_retire c)) = length (requests c)"
proof (induction c rule: closed_retire.induct)
  case (1 c)
  show ?case
  proof (cases "prv_request_get_pending c (- 1)")
    case None
    then have "closed_retire c = c" by (subst closed_retire.simps) simp
    moreover have "filter is_pending (requests c) = []"
      using None find_pending_any_None by (simp add: prv_request_get_pending_def)
    ultimately show ?thesis by simp
  next
    case (Some i)
    let ?r = "requests c ! i"
    let ?c' = "prv_request_send_err_callback (prv_request_delete c i) (status ?r) (arg ?r)"
    have e: "closed_retire c = closed_retire ?c'"
      using Some by (subst closed_retire.simps) simp
    have c': "?c' = c\<lparr>requests := (requests c)[i := ?r\<lparr>status := 0\<rparr>], evts := evts c @ [error_evt ?r]\<rparr>"
      by (simp add: err_callback_eq prv_request_delete_def)
    have f: "filter is_pending (requests c) = ?r # filter is_pending ((requests c)[i := ?r\<lparr>status := 0\<rparr>])"
      using Some find_pending_any_Some by (simp add: prv_request_get_pending_def)
    have ih: "closed_retire ?c' =
        ?c'\<lparr>evts := evts ?c' @ map error_evt (filter is_pending (requests ?c')),
            requests := requests (closed_retire ?c')\<rparr>
        \<and> length (requests (closed_retire ?c')) = length (requests ?c')"
      using 1[OF Some] .
    have "closed_retire ?c' =
        c\<lparr>evts := evts c @ map error_evt (filter is_pending (requests c)),
          requests := requests (closed_retire ?c')\<rparr>"
      by (subst conjunct1[OF ih]) (simp add: c' f)
    moreover have "length (requests (closed_retire ?c')) = length (requests c)"
      using conjunct2[OF ih] by (simp add: c')
    ultimately show ?thesis using e by simp
  qed
qed

lemma closed_retire_fields:
  "evts (closed_retire c) = evts c @ map error_evt (filter is_pending (requests c))"
  "conn_state (closed_retire c) = conn_state c"
  "tx_buff (closed_retire c) = tx_buff c"
  "last_packet_id (closed_retire c) = last_packet_id c"
  "length (requests (closed_retire c)) = length (requests c)"
proof -
  note e = conjunct1[OF closed_retire_eq[of c]]
  show "evts (closed_retire c) = evts c @ map error_evt (filter is_pending (requests c))"
    by (subst e) simp
  show "conn_state (closed_retire c) = conn_state c" by (subst e) simp
  show "tx_buff (closed_retire c) = tx_buff c" by (subst e) simp
  show "last_packet_id (closed_retire c) = last_packet_id c" by (subst e) simp
  show "length (requests (closed_retire c)) = length (requests c)"
    using closed_retire_eq[of c] by simp
qed

text \<open>
  C6. \<open>prv_mqtt_closed_cb\<close> leaves the session state \<open>LWCELL_MQTT_CONN_DISCONNECTED\<close>;
  it emits a DISCONNECT event whose \<open>is_accepted\<close> is true exactly when the state before was
  \<open>LWCELL_MQTT_CONNECTED\<close> or \<open>LWCELL_MQTT_CONN_DISCONNECTING\<close>, followed by one error event
  of the request's kind for every pending request, in slot order; every slot of the registry
  is zeroed, so that no request is pending; and the TX buffer is reset, so that it holds no
  byte. The send counters and the sending flag are cleared as well.
\<close>

theorem closed_cb:
  "fst (prv_mqtt_closed_cb c) = 1
   \<and> conn_state (snd (prv_mqtt_closed_cb c)) = LWCELL_MQTT_CONN_DISCONNECTED
   \<and> evts (snd (prv_mqtt_closed_cb c)) =
       evts c
       @ [LWCELL_MQTT_EVT_DISCONNECT
            (conn_state c = LWCELL_MQTT_CONNECTED \<or> conn_state c = LWCELL_MQTT_CONN_DISCONNECTING)]
       @ map error_evt (filter is_pending (requests c))
   \<and> requests (snd (prv_mqtt_closed_cb c)) = replicate (length (requests c)) zero_request
   \<and> prv_request_get_pending (snd (prv_mqtt_closed_cb c)) p = None
   \<and> lwcell_buff_get_full (tx_buff (snd (prv_mqtt_closed_cb c))) = 0
   \<and> lwcell_buff_get_linear_block_read_length (tx_buff (snd (prv_mqtt_closed_cb c))) = 0
   \<and> b_r (tx_buff (snd (prv_mqtt_closed_cb c))) = 0
   \<and> is_sending (snd (prv_mqtt_closed_cb c)) = 0
   \<and> sent_total (snd (prv_mqtt_closed_cb c)) = 0
   \<and> written_total (snd (prv_mqtt_closed_cb c)) = 0"
proof -
  have z: "find_pending (replicate n zero_request) p = None" for n
    by (induction n) (simp_all add: zero_request_def)
  show ?thesis
    by (simp add: prv_mqtt_closed_cb_def closed_reset_def memset_requests_def Let_def
        closed_retire_fields evt_fn_def map_replicate_const
        prv_request_get_pending_def z lwcell_buff_reset_def lwcell_buff_get_full_def
        lwcell_buff_get_linear_block_read_length_def)
qed

theorem closed_cb_witness:
  "conn_state (snd (prv_mqtt_closed_cb closing_client)) = LWCELL_MQTT_CONN_DISCONNECTED
   \<and> evts (snd (prv_mqtt_closed_cb closing_client)) =
       [LWCELL_MQTT_EVT_DISCONNECT True, LWCELL_MQTT_EVT_SUBSCRIBE 11 lwcellERR,
        LWCELL_MQTT_EVT_PUBLISH 12 lwcellERR]
   \<and> evts (snd (prv_mqtt_closed_cb (connack_client LWCELL_MQTT_CONNECTING 0))) =
       [LWCELL_MQTT_EVT_DISCONNECT False]
   \<and> requests (snd (prv_mqtt_closed_cb closing_client)) = [zero_request, zero_request]
   \<and> b_data (tx_buff closing_client) = [0xC0, 0x00]
   \<and> lwcell_buff_get_full (tx_buff (snd (prv_mqtt_closed_cb closing_client))) = 0"
proof -
  have a: "evts closing_client = []" "conn_state closing_client = LWCELL_MQTT_CONN_DISCONNECTING"
    "map error_evt (filter is_pending (requests closing_client)) =
       [LWCELL_MQTT_EVT_SUBSCRIBE 11 lwcellERR, LWCELL_MQTT_EVT_PUBLISH 12 lwcellERR]"
    "replicate (length (requests closing_client)) zero_request = [zero_request, zero_request]"
    "b_data (tx_buff closing_client) = [0xC0, 0x00]"
    by (simp_all add: closing_client_def full_client_def connected_client_def error_evt_def
        is_pending_def MQTT_REQUEST_FLAG_PENDING_def MQTT_REQUEST_FLAG_SUBSCRIBE_def
        MQTT_REQUEST_FLAG_UNSUBSCRIBE_def)
  have b: "evts (connack_client LWCELL_MQTT_CONNECTING 0) = []"
    "conn_state (connack_client LWCELL_MQTT_CONNECTING 0) = LWCELL_MQTT_CONNECTING"
    "filter is_pending (requests (connack_client LWCELL_MQTT_CONNECTING 0)) = []"
    by (simp_all add: connack_client_def connected_client_def is_pending_def zero_request_def)
  show ?thesis
    using closed_cb[of closing_client 0] closed_cb[of "connack_client LWCELL_MQTT_CONNECTING 0" 0] a b
    by simp
qed

section \<open>Keep-alive and send completions\<close>

lemma foldl_write_u8:
  "foldl prv_write_u8 c xs = c\<lparr>tx_buff := foldl (\<lambda>b x. lwcell_buff_write b [x]) (tx_buff c) xs\<rparr>"
  by (induction xs arbitrary: c) (simp_all add: prv_write_u8_def)

lemma write_fixed_header_eq:
  "prv_write_fixed_header c t d q r n =
     c\<lparr>tx_buff := foldl (\<lambda>b x. lwcell_buff_write b [x]) (tx_buff c)
                      (fixed_header_byte t d q r # rem_len_bytes n)\<rparr>"
  unfolding prv_write_fixed_header_def by (rule foldl_write_u8)

lemma send_data_frame:
  "poll_time (prv_send_data c ok) = poll_time c"
  "keep_alive (prv_send_data c ok) = keep_alive c"
  "conn_state (prv_send_data c ok) = conn_state c"
  "requests (prv_send_data c ok) = requests c"
  "evts (prv_send_data c ok) = evts c"
  "sent_total (prv_send_data c ok) = sent_total c"
  by (simp_all add: prv_send_data_def Let_def)

lemma sent_retire_frame:
  "poll_time (sent_retire c) = poll_time c \<and> keep_alive (sent_retire c) = keep_alive c
   \<and> tx_buff (sent_retire c) = tx_buff c \<and> conn_state (sent_retire c) = conn_state c
   \<and> sent_total (sent_retire c) = sent_total c \<and> written_total (sent_retire c) = written_total c
   \<and> is_sending (sent_retire c) = is_sending c"
proof (induction c rule: sent_retire.induct)
  case (1 c)
  show ?case
  proof (cases "prv_request_get_pending c 0")
    case None
    then show ?thesis by (subst (1 2 3 4 5 6 7) sent_retire.simps) simp
  next
    case (Some i)
    show ?thesis
    proof (cases "sent_total c \<ge> expected_sent_len (requests c ! i)")
      case True
      with Some 1 show ?thesis
        by (subst (1 2 3 4 5 6 7) sent_retire.simps) (simp add: evt_fn_def prv_request_delete_def)
    next
      case False
      with Some show ?thesis by (subst (1 2 3 4 5 6 7) sent_retire.simps) simp
    qed
  qed
qed

lemma sent_cb_poll_time: "poll_time (snd (prv_mqtt_data_sent_cb c n ok cr so)) = 0"
  by (simp add: prv_mqtt_data_sent_cb_def Let_def prv_mqtt_close_def send_data_frame sent_retire_frame)

lemma sent_cb_keep_alive: "keep_alive (snd (prv_mqtt_data_sent_cb c n ok cr so)) = keep_alive c"
  by (simp add: prv_mqtt_data_sent_cb_def Let_def prv_mqtt_close_def send_data_frame sent_retire_frame)

lemma poll_cb_keep_alive: "keep_alive (snd (prv_mqtt_poll_cb c i ok)) = keep_alive c"
  by (simp add: prv_mqtt_poll_cb_def Let_def send_data_frame write_fixed_header_eq)

lemma unat_succ_le: "unat ((x :: u32) + 1) \<le> unat x + 1"
  by (simp add: unat_word_ariths)

lemma poll_cb_poll_time: "unat (poll_time (snd (prv_mqtt_poll_cb c i ok))) \<le> unat (poll_time c) + 1"
  using unat_succ_le[of "poll_time c"]
  by (simp add: prv_mqtt_poll_cb_def Let_def send_data_frame write_fixed_header_eq)

lemma poll_cb_emits:
  assumes "tx_buff (snd (prv_mqtt_poll_cb c i ok)) \<noteq> tx_buff c"
  shows "keep_alive c \<noteq> 0 \<and> unat (keep_alive c) * 1000 \<le> (unat (poll_time c) + 1) * unat i"
proof -
  have g: "keep_alive c \<noteq> 0 \<and> (ucast (keep_alive c) * 1000 :: u32) \<le> (poll_time c + 1) * i"
    using assms by (auto simp: prv_mqtt_poll_cb_def Let_def split: if_splits)
  have "unat (keep_alive c) < 65536" using unsigned_less[of "keep_alive c", where ?'a = nat] by simp
  then have a: "unat (ucast (keep_alive c) * 1000 :: u32) = unat (keep_alive c) * 1000"
    by (simp add: unat_word_ariths unsigned_ucast_eq take_bit_eq_mod)
  have b: "unat ((poll_time c + 1) * i) \<le> unat (poll_time c + 1) * unat i"
    by (simp add: unat_word_ariths)
  have c: "unat (poll_time c + 1) * unat i \<le> (unat (poll_time c) + 1) * unat i"
    using unat_succ_le[of "poll_time c"] by (intro mult_le_mono1) simp
  have "unat (ucast (keep_alive c) * 1000 :: u32) \<le> unat ((poll_time c + 1) * i)"
    using g by (simp add: word_le_nat_alt)
  then show ?thesis using g a b c by linarith
qed

lemma timer_write_u8: "timer_of (prv_write_u8 c x) = timer_of c"
  by (simp add: timer_of_def prv_write_u8_def)

lemma timer_write_u16: "timer_of (prv_write_u16 c x) = timer_of c"
  by (simp add: prv_write_u16_def timer_write_u8)

lemma timer_write_data: "timer_of (prv_write_data c xs) = timer_of c"
  by (simp add: timer_of_def prv_write_data_def)

lemma timer_write_string: "timer_of (prv_write_string c s n) = timer_of c"
  using timer_write_u16[of c n] by (simp add: timer_of_def prv_write_string_def Let_def)

lemma timer_write_fixed_header: "timer_of (prv_write_fixed_header c t d q r n) = timer_of c"
  by (simp add: timer_of_def write_fixed_header_eq)

lemma timer_send_data: "timer_of (prv_send_data c ok) = timer_of c"
  by (simp add: timer_of_def send_data_frame)

lemma timer_requests: "timer_of (c\<lparr>requests := rs\<rparr>) = timer_of c"
  by (simp add: timer_of_def)

lemma timer_set_pending: "timer_of (prv_request_set_pending c i now) = timer_of c"
  by (simp add: timer_of_def prv_request_set_pending_def)

lemma timer_or_status: "timer_of (request_or_status c i f) = timer_of c"
  by (simp add: timer_of_def request_or_status_def)

lemma timer_set_expected: "timer_of (request_set_expected_sent_len c i n) = timer_of c"
  by (simp add: timer_of_def request_set_expected_sent_len_def)

lemma timer_delete: "timer_of (prv_request_delete c i) = timer_of c"
  by (simp add: timer_of_def prv_request_delete_def)

lemma timer_evt_fn: "timer_of (evt_fn c e) = timer_of c"
  by (simp add: timer_of_def evt_fn_def)

lemma timer_create: "timer_of (snd (prv_request_create c p a)) = timer_of c"
  by (simp add: timer_of_def prv_request_create_def split: option.splits)

lemma timer_packet_id: "timer_of (snd (prv_create_packet_id c)) = timer_of c"
  by (simp add: timer_of_def prv_create_packet_id_def Let_def)

lemma timer_when_do: "(\<And>s. timer_of (f s) = timer_of s) \<Longrightarrow> timer_of (when_do b f c) = timer_of c"
  by (simp add: when_do_def)

lemmas timer_simps =
  timer_write_u8 timer_write_u16 timer_write_data timer_write_string timer_write_fixed_header
  timer_send_data timer_set_pending timer_or_status timer_set_expected timer_delete timer_evt_fn
  timer_when_do

lemma timer_sub_unsub: "timer_of (snd (prv_sub_unsub c topic qos a sub now ok)) = timer_of c"
proof -
  obtain p c1 where p: "prv_create_packet_id c = (p, c1)" by (cases "prv_create_packet_id c")
  obtain r c2 where r: "prv_request_create c1 p a = (r, c2)" by (cases "prv_request_create c1 p a")
  have t: "timer_of c2 = timer_of c"
    using timer_packet_id[of c] timer_create[of c1 p a] p r by simp
  show ?thesis
    using p r t by (cases r) (simp_all add: prv_sub_unsub_def Let_def timer_simps)
qed

lemma timer_subscribe: "timer_of (snd (lwcell_mqtt_client_subscribe c topic qos a now ok)) = timer_of c"
  using timer_sub_unsub[of c topic qos a 1 now ok]
  by (cases "prv_sub_unsub c topic qos a 1 now ok") (simp add: lwcell_mqtt_client_subscribe_def)

lemma timer_unsubscribe: "timer_of (snd (lwcell_mqtt_client_unsubscribe c topic a now ok)) = timer_of c"
  using timer_sub_unsub[of c topic 0 a 0 now ok]
  by (cases "prv_sub_unsub c topic 0 a 0 now ok") (simp add: lwcell_mqtt_client_unsubscribe_def)

lemma timer_publish:
  "timer_of (snd (lwcell_mqtt_client_publish c topic payload n qos retain a now ok)) = timer_of c"
proof -
  obtain p c1 where p: "(if qos > 0 then prv_create_packet_id c else (0, c)) = (p, c1)"
    by (cases "if qos > 0 then prv_create_packet_id c else (0, c)")
  obtain r c2 where r: "prv_request_create c1 p a = (r, c2)" by (cases "prv_request_create c1 p a")
  have "timer_of c1 = timer_of c" using timer_packet_id[of c] p by (auto split: if_splits)
  then have t: "timer_of c2 = timer_of c" using timer_create[of c1 p a] r by simp
  show ?thesis
    using p r t
    by (cases r; cases payload) (simp_all add: lwcell_mqtt_client_publish_def Let_def timer_simps)
qed

lemma timer_ack: "timer_of (snd (prv_write_ack_rec_rel_resp c t p q ok)) = timer_of c"
  by (simp add: prv_write_ack_rec_rel_resp_def timer_simps)

lemma timer_final_ack: "timer_of (process_final_ack c t) = timer_of c"
  by (simp add: process_final_ack_def Let_def timer_simps split: option.splits)

lemma timer_process: "timer_of (snd (prv_mqtt_process_incoming_message c ok)) = timer_of c"
proof (cases "MQTT_RCV_GET_PACKET_TYPE (msg_hdr_byte c)")
  case None
  then show ?thesis by (simp add: prv_mqtt_process_incoming_message_def)
next
  case (Some t)
  then show ?thesis
    by (cases t)
       (simp_all add: prv_mqtt_process_incoming_message_def Let_def timer_ack timer_final_ack
          timer_evt_fn, simp_all add: timer_of_def)
qed

lemma timer_closed: "timer_of (snd (prv_mqtt_closed_cb c)) = timer_of c"
proof -
  have "timer_of (closed_retire c) = timer_of c" for c
    by (subst conjunct1[OF closed_retire_eq[of c]]) (simp add: timer_of_def)
  then show ?thesis
    by (simp add: prv_mqtt_closed_cb_def Let_def closed_reset_def memset_requests_def timer_of_def evt_fn_def)
qed

lemma step_timer:
  assumes "\<not> is_sent e"
  shows "keep_alive (client_step i c e) = keep_alive c
       \<and> unat (poll_time (client_step i c e)) \<le> unat (poll_time c) + (if is_poll e then 1 else 0)"
proof (cases e)
  case (EV_PUBLISH t p n q r a now ok)
  then show ?thesis using timer_publish[of c t p n q r a now ok] by (simp add: timer_of_def)
next
  case (EV_SUBSCRIBE t q a now ok)
  then show ?thesis using timer_subscribe[of c t q a now ok] by (simp add: timer_of_def)
next
  case (EV_UNSUBSCRIBE t a now ok)
  then show ?thesis using timer_unsubscribe[of c t a now ok] by (simp add: timer_of_def)
next
  case (EV_PACKET h n b ok)
  then show ?thesis
    using timer_process[of "c\<lparr>msg_hdr_byte := h, msg_rem_len := n, rx_buff := b\<rparr>" ok]
    by (simp add: timer_of_def)
next
  case (EV_POLL ok)
  then show ?thesis using poll_cb_keep_alive[of c i ok] poll_cb_poll_time[of c i ok] by simp
next
  case (EV_SENT n s cr ok)
  with assms show ?thesis by simp
next
  case EV_CLOSED
  then show ?thesis using timer_closed[of c] by (simp add: timer_of_def)
qed

lemma run_timer:
  "\<not> list_ex is_sent evs \<Longrightarrow>
   keep_alive (client_run i c evs) = keep_alive c
   \<and> unat (poll_time (client_run i c evs)) \<le> unat (poll_time c) + length (filter is_poll evs)"
proof (induction evs arbitrary: c)
  case Nil
  show ?case by (simp add: client_run_def)
next
  case (Cons e evs)
  then have n: "\<not> is_sent e" "\<not> list_ex is_sent evs" by simp_all
  have s: "keep_alive (client_step i c e) = keep_alive c
       \<and> unat (poll_time (client_step i c e)) \<le> unat (poll_time c) + (if is_poll e then 1 else 0)"
    using step_timer[OF n(1)] .
  have r: "keep_alive (client_run i (client_step i c e) evs) = keep_alive (client_step i c e)
   \<and> unat (poll_time (client_run i (client_step i c e) evs))
       \<le> unat (poll_time (client_step i c e)) + length (filter is_poll evs)"
    using Cons.IH[OF n(2)] .
  have e: "client_run i c (e # evs) = client_run i (client_step i c e) evs"
    by (simp add: client_run_def)
  show ?case using s r unfolding e by (cases "is_poll e") simp_all
qed

text \<open>
  C9. \<open>prv_mqtt_data_sent_cb\<close> leaves \<open>poll_time\<close> at 0 whatever the reported outcome of
  the send (the assignment precedes the test of \<open>successful\<close>; only \<open>is_sending\<close> and
  \<open>sent_total\<close> are updated before it). Consequently, in every run that follows a
  send-complete event and contains no further send-complete event, a poll that writes a PINGREQ
  into the TX buffer finds keep-alive enabled and the polls counted since that send-complete
  event cover the whole keep-alive interval:
  \<open>keep_alive * 1000 \<le> (number of polls in the run + 1) * interval\<close>.
\<close>

theorem keep_alive_after_sent:
  "poll_time (client_step i c (EV_SENT n ok cr so)) = 0
   \<and> (\<not> list_ex is_sent evs
        \<and> tx_buff (client_step i (client_run i (client_step i c (EV_SENT n ok cr so)) evs) (EV_POLL ok'))
            \<noteq> tx_buff (client_run i (client_step i c (EV_SENT n ok cr so)) evs)
      \<longrightarrow> keep_alive c \<noteq> 0
          \<and> unat (keep_alive c) * 1000 \<le> (length (filter is_poll evs) + 1) * unat i)"
proof -
  let ?c1 = "client_step i c (EV_SENT n ok cr so)"
  let ?c2 = "client_run i ?c1 evs"
  have p0: "poll_time ?c1 = 0" using sent_cb_poll_time[of c n ok cr so] by simp
  have k1: "keep_alive ?c1 = keep_alive c" using sent_cb_keep_alive[of c n ok cr so] by simp
  {
    assume ns: "\<not> list_ex is_sent evs"
      and e: "tx_buff (client_step i ?c2 (EV_POLL ok')) \<noteq> tx_buff ?c2"
    have f: "keep_alive ?c2 = keep_alive c" "unat (poll_time ?c2) \<le> length (filter is_poll evs)"
      using run_timer[OF ns, of i ?c1] p0 k1 by simp_all
    have e': "tx_buff (snd (prv_mqtt_poll_cb ?c2 i ok')) \<noteq> tx_buff ?c2" using e by simp
    have h: "keep_alive ?c2 \<noteq> 0 \<and> unat (keep_alive ?c2) * 1000 \<le> (unat (poll_time ?c2) + 1) * unat i"
      using poll_cb_emits[OF e'] .
    have m: "(unat (poll_time ?c2) + 1) * unat i \<le> (length (filter is_poll evs) + 1) * unat i"
      using f(2) by (intro mult_le_mono1) simp
    have "unat (keep_alive c) * 1000 \<le> (unat (poll_time ?c2) + 1) * unat i"
      using h f(1) by simp
    then have "unat (keep_alive c) * 1000 \<le> (length (filter is_poll evs) + 1) * unat i"
      using m by (rule le_trans)
    with h f(1) have "keep_alive c \<noteq> 0
        \<and> unat (keep_alive c) * 1000 \<le> (length (filter is_poll evs) + 1) * unat i"
      by simp
  }
  with p0 show ?thesis by blast
qed

theorem keep_alive_after_sent_witness:
  "poll_time (client_step 500 polled_client (EV_SENT 0 False lwcellERR True)) = 0
   \<and> b_data (tx_buff (client_run 500 (client_step 500 polled_client (EV_SENT 0 False lwcellERR True))
                         quiet_run)) = []
   \<and> b_data (tx_buff (client_step 500
                         (client_run 500 (client_step 500 polled_client (EV_SENT 0 False lwcellERR True))
                            quiet_run)
                         (EV_POLL True))) = [0xC0, 0x00]
   \<and> unat (keep_alive polled_client) * 1000 \<le> (length (filter is_poll quiet_run) + 1) * unat (500 :: u32)"
proof -
  let ?c2 = "client_run 500 (client_step 500 polled_client (EV_SENT 0 False lwcellERR True)) quiet_run"
  have a: "b_data (tx_buff (client_step 500 ?c2 (EV_POLL True))) = [0xC0, 0x00]" by code_simp
  have b: "b_data (tx_buff ?c2) = []" by code_simp
  have n: "tx_buff (client_step 500 ?c2 (EV_POLL True)) \<noteq> tx_buff ?c2"
    using a b by auto
  have q: "\<not> list_ex is_sent quiet_run" by (simp add: quiet_run_def list_ex_iff)
  show ?thesis
    using keep_alive_after_sent[of 500 polled_client 0 False lwcellERR True quiet_run True] n q a b
    by blast
qed

section \<open>SUBACK and UNSUBACK\<close>

lemma find_pending_id_None:
  "find_pending rs (uint (p :: u16)) = None \<longleftrightarrow> (\<forall>r\<in>set rs. \<not> (is_pending r \<and> packet_id r = p))"
proof -
  have "uint p \<noteq> - 1" using uint_ge_0[of p] by linarith
  then show ?thesis by (induction rs) (auto simp: is_pending_def)
qed

lemma find_pending_id_Some:
  "find_pending rs (uint (p :: u16)) = Some i \<Longrightarrow>
     i < length rs \<and> is_pending (rs ! i) \<and> packet_id (rs ! i) = p
     \<and> (\<forall>j<i. \<not> (is_pending (rs ! j) \<and> packet_id (rs ! j) = p))"
proof (induction rs arbitrary: i)
  case Nil
  then show ?case by simp
next
  case (Cons r rs)
  have n: "uint p \<noteq> - 1" using uint_ge_0[of p] by linarith
  show ?case
  proof (cases "is_pending r \<and> packet_id r = p")
    case True
    with Cons.prems n have "i = 0" by (simp add: is_pending_def)
    with True show ?thesis by simp
  next
    case False
    with Cons.prems n obtain k where k: "find_pending rs (uint p) = Some k" "i = Suc k"
      by (auto simp: is_pending_def split: if_splits)
    have ih: "k < length rs \<and> is_pending (rs ! k) \<and> packet_id (rs ! k) = p
     \<and> (\<forall>j<k. \<not> (is_pending (rs ! j) \<and> packet_id (rs ! j) = p))"
      using Cons.IH[OF k(1)] .
    have "\<forall>j<Suc k. \<not> (is_pending ((r # rs) ! j) \<and> packet_id ((r # rs) ! j) = p)"
    proof (intro allI impI)
      fix j assume "j < Suc k"
      then show "\<not> (is_pending ((r # rs) ! j) \<and> packet_id ((r # rs) ! j) = p)"
        using False ih by (cases j) auto
    qed
    with ih k show ?thesis by simp
  qed
qed

text \<open>
  The dispatcher on a SUBACK or an UNSUBACK, with the packet identifier read from
  \<open>rx_buff[0..1]\<close>: when no pending request has that identifier the client is left as it was
  (the violation is only logged); otherwise the first pending request \<open>i\<close> with that
  identifier is the one served: one SUBSCRIBE (for SUBACK) or UNSUBSCRIBE (for UNSUBACK) event
  with the request's argument is emitted, with result \<open>lwcellOK\<close> exactly when the byte
  \<open>rx_buff[2]\<close> is less than 3 and \<open>lwcellERR\<close> otherwise, the status of slot \<open>i\<close> is
  set to 0, and nothing else changes. The body of a SUBACK has at least three bytes and
  \<open>rx_buff[2]\<close> is its first return code; the body of an UNSUBACK has two bytes, so there
  \<open>rx_buff[2]\<close> is not a byte of the packet.
\<close>

theorem suback_dispatch:
  assumes "MQTT_RCV_GET_PACKET_TYPE (msg_hdr_byte c) = Some t"
    and "t = MQTT_MSG_TYPE_SUBACK \<or> t = MQTT_MSG_TYPE_UNSUBACK"
  shows "((\<forall>r\<in>set (requests c). \<not> (is_pending r \<and> packet_id r = rx_u16 c 0)) \<longrightarrow>
            prv_mqtt_process_incoming_message c send_ok = (1, c))
       \<and> ((\<exists>r\<in>set (requests c). is_pending r \<and> packet_id r = rx_u16 c 0) \<longrightarrow>
            (\<exists>i<length (requests c).
               is_pending (requests c ! i) \<and> packet_id (requests c ! i) = rx_u16 c 0
               \<and> (\<forall>j<i. \<not> (is_pending (requests c ! j) \<and> packet_id (requests c ! j) = rx_u16 c 0))
               \<and> prv_mqtt_process_incoming_message c send_ok =
                   (1, c\<lparr>evts := evts c @
                            [(if t = MQTT_MSG_TYPE_SUBACK then LWCELL_MQTT_EVT_SUBSCRIBE
                              else LWCELL_MQTT_EVT_UNSUBSCRIBE)
                               (arg (requests c ! i))
                               (if rx_buff c 2 < 3 then lwcellOK else lwcellERR)],
                          requests := (requests c)[i := (requests c ! i)\<lparr>status := 0\<rparr>]\<rparr>)))"
proof -
  have d: "prv_mqtt_process_incoming_message c send_ok = (1, process_final_ack c t)"
  proof -
    from assms(2) show ?thesis
    proof
      assume "t = MQTT_MSG_TYPE_SUBACK"
      with assms(1) show ?thesis by (simp add: prv_mqtt_process_incoming_message_def)
    next
      assume "t = MQTT_MSG_TYPE_UNSUBACK"
      with assms(1) show ?thesis by (simp add: prv_mqtt_process_incoming_message_def)
    qed
  qed
  show ?thesis
  proof (cases "prv_request_get_pending c (uint (rx_u16 c 0))")
    case None
    then have n: "\<forall>r\<in>set (requests c). \<not> (is_pending r \<and> packet_id r = rx_u16 c 0)"
      using find_pending_id_None[of "requests c" "rx_u16 c 0"] by (simp add: prv_request_get_pending_def)
    have "process_final_ack c t = c" using None by (simp add: process_final_ack_def Let_def)
    with d n show ?thesis by auto
  next
    case (Some i)
    then have s: "i < length (requests c) \<and> is_pending (requests c ! i)
       \<and> packet_id (requests c ! i) = rx_u16 c 0
       \<and> (\<forall>j<i. \<not> (is_pending (requests c ! j) \<and> packet_id (requests c ! j) = rx_u16 c 0))"
      using find_pending_id_Some[of "requests c" "rx_u16 c 0" i] by (simp add: prv_request_get_pending_def)
    then have ex: "\<exists>r\<in>set (requests c). is_pending r \<and> packet_id r = rx_u16 c 0"
      using nth_mem[of i "requests c"] by blast
    have pf: "process_final_ack c t =
        c\<lparr>evts := evts c @
                            [(if t = MQTT_MSG_TYPE_SUBACK then LWCELL_MQTT_EVT_SUBSCRIBE
                              else LWCELL_MQTT_EVT_UNSUBSCRIBE)
                               (arg (requests c ! i))
                               (if rx_buff c 2 < 3 then lwcellOK else lwcellERR)],
                          requests := (requests c)[i := (requests c ! i)\<lparr>status := 0\<rparr>]\<rparr>"
      using Some assms(2) by (auto simp: process_final_ack_def Let_def evt_fn_def prv_request_delete_def)
    show ?thesis
    proof (intro conjI impI)
      assume "\<forall>r\<in>set (requests c). \<not> (is_pending r \<and> packet_id r = rx_u16 c 0)"
      with ex show "prv_mqtt_process_incoming_message c send_ok = (1, c)" by blast
    next
      show "\<exists>i<length (requests c).
               is_pending (requests c ! i) \<and> packet_id (requests c ! i) = rx_u16 c 0
               \<and> (\<forall>j<i. \<not> (is_pending (requests c ! j) \<and> packet_id (requests c ! j) = rx_u16 c 0))
               \<and> prv_mqtt_process_incoming_message c send_ok =
                   (1, c\<lparr>evts := evts c @
                            [(if t = MQTT_MSG_TYPE_SUBACK then LWCELL_MQTT_EVT_SUBSCRIBE
                              else LWCELL_MQTT_EVT_UNSUBSCRIBE)
                               (arg (requests c ! i))
                               (if rx_buff c 2 < 3 then lwcellOK else lwcellERR)],
                          requests := (requests c)[i := (requests c ! i)\<lparr>status := 0\<rparr>]\<rparr>)"
        using s d pf by (intro exI[of _ i]) simp
    qed
  qed
qed

theorem suback_dispatch_witness:
  "evts (snd (prv_mqtt_process_incoming_message (suback_client 0x90 1 0) True))
       = [LWCELL_MQTT_EVT_SUBSCRIBE 11 lwcellOK]
   \<and> evts (snd (prv_mqtt_process_incoming_message (suback_client 0x90 1 0x80) True))
       = [LWCELL_MQTT_EVT_SUBSCRIBE 11 lwcellERR]
   \<and> map status (requests (snd (prv_mqtt_process_incoming_message (suback_client 0x90 1 0) True)))
       = [0, 0x03]
   \<and> prv_mqtt_process_incoming_message (suback_client 0xB0 9 0) True = (1, suback_client 0xB0 9 0)"
proof -
  have t1: "MQTT_RCV_GET_PACKET_TYPE (msg_hdr_byte (suback_client 0x90 1 0)) = Some MQTT_MSG_TYPE_SUBACK"
    by (simp add: suback_client_def MQTT_RCV_GET_PACKET_TYPE_def)
  have t2: "MQTT_RCV_GET_PACKET_TYPE (msg_hdr_byte (suback_client 0xB0 9 0)) = Some MQTT_MSG_TYPE_UNSUBACK"
    by (simp add: suback_client_def MQTT_RCV_GET_PACKET_TYPE_def)
  have e1: "\<exists>r\<in>set (requests (suback_client 0x90 1 0)). is_pending r \<and> packet_id r = rx_u16 (suback_client 0x90 1 0) 0"
    by (simp add: suback_client_def full_client_def is_pending_def rx_u16_def MQTT_REQUEST_FLAG_PENDING_def)
  have e2: "\<forall>r\<in>set (requests (suback_client 0xB0 9 0)). \<not> (is_pending r \<and> packet_id r = rx_u16 (suback_client 0xB0 9 0) 0)"
    by (simp add: suback_client_def full_client_def is_pending_def rx_u16_def MQTT_REQUEST_FLAG_PENDING_def)
  have v: "evts (snd (prv_mqtt_process_incoming_message (suback_client 0x90 1 0) True))
       = [LWCELL_MQTT_EVT_SUBSCRIBE 11 lwcellOK]"
    "evts (snd (prv_mqtt_process_incoming_message (suback_client 0x90 1 0x80) True))
       = [LWCELL_MQTT_EVT_SUBSCRIBE 11 lwcellERR]"
    "map status (requests (snd (prv_mqtt_process_incoming_message (suback_client 0x90 1 0) True)))
       = [0, 0x03]"
    by code_simp+
  have u: "prv_mqtt_process_incoming_message (suback_client 0xB0 9 0) True = (1, suback_client 0xB0 9 0)"
    using suback_dispatch[OF t2, of True] e2 by simp
  show ?thesis
    using suback_dispatch[OF t1, of True] e1 v u by simp
qed

section \<open>Remaining length: encode, then decode\<close>

lemma bit_0x7F: "bit (0x7F :: int) n \<longleftrightarrow> n < 7"
proof -
  have "(0x7F :: int) = mask 7" by (simp add: mask_eq_exp_minus_1)
  then show ?thesis by (simp only: bit_mask_iff) simp
qed

lemma bit_0x80: "bit (0x80 :: int) n \<longleftrightarrow> n = 7"
proof -
  have "(0x80 :: int) = 2 ^ 7" by simp
  then show ?thesis by (simp only: bit_exp_iff) auto
qed

lemma and_0x7F: "(v :: 'a::len word) AND 0x7F = take_bit 7 v"
  by (rule bit_word_eqI) (auto simp: bit_simps bit_0x7F)

lemma vli_split: "(ucast (v :: u16) :: u32) = ucast (v AND 0x7F) OR push_bit 7 (ucast (drop_bit 7 v))"
proof (rule bit_word_eqI)
  fix n assume "n < LENGTH(32)"
  show "bit (ucast v :: u32) n = bit (ucast (v AND 0x7F) OR push_bit 7 (ucast (drop_bit 7 v)) :: u32) n"
  proof (cases "n < 7")
    case True
    then show ?thesis by (simp add: bit_simps bit_0x7F)
  next
    case False
    then have "7 + (n - 7) = n" by simp
    with False \<open>n < LENGTH(32)\<close> show ?thesis by (auto simp: bit_simps bit_0x7F)
  qed
qed

lemma gt_7F_iff: "(v :: u16) > 0x7F \<longleftrightarrow> drop_bit 7 v > 0"
proof -
  have "unat (drop_bit 7 v) = unat v div 128" by (simp add: drop_bit_eq_div unat_div)
  moreover have "0 < unat v div 128 \<longleftrightarrow> 127 < unat v" by arith
  ultimately have "0 < unat (drop_bit 7 v) \<longleftrightarrow> 127 < unat v" by simp
  then show ?thesis by (simp add: word_less_nat_alt)
qed

lemma vli_byte_low:
  "(ucast ((ucast ((v AND 0x7F) OR (if (v :: u16) > 0x7F then 0x80 else 0)) :: u8) AND 0x7F) :: u32)
     = ucast (v AND 0x7F)"
  by (rule bit_word_eqI) (auto simp: bit_simps bit_0x7F bit_0x80)

lemma vli_byte_cont:
  "((ucast ((v AND 0x7F) OR (if (v :: u16) > 0x7F then 0x80 else 0)) :: u8) AND 0x80 = 0)
     \<longleftrightarrow> \<not> v > 0x7F"
proof (cases "v > 0x7F")
  case True
  have "bit ((ucast ((v AND 0x7F) OR 0x80) :: u8) AND 0x80) 7" by (simp add: bit_simps bit_0x80)
  then have "(ucast ((v AND 0x7F) OR 0x80) :: u8) AND 0x80 \<noteq> 0" by auto
  with True show ?thesis by simp
next
  case False
  have "(ucast (v AND 0x7F) :: u8) AND 0x80 = 0"
    by (rule bit_word_eqI) (auto simp: bit_simps bit_0x7F bit_0x80)
  with False show ?thesis by simp
qed

lemma rem_len_bytes_last: "drop_bit 7 v = 0 \<Longrightarrow> rem_len_bytes v = [ucast (v AND 0x7F)]"
  using gt_7F_iff[of v] by (subst rem_len_bytes.simps) (simp add: Let_def)

lemma rem_len_bytes_more:
  "drop_bit 7 v \<noteq> 0 \<Longrightarrow> rem_len_bytes v = ucast ((v AND 0x7F) OR 0x80) # rem_len_bytes (drop_bit 7 v)"
  using gt_7F_iff[of v] by (subst rem_len_bytes.simps) (simp add: Let_def word_greater_zero_iff)

lemma rem_len_bytes_length:
  "length (rem_len_bytes v) = (if drop_bit 7 v = 0 then 1 else if drop_bit 14 v = 0 then 2 else 3)"
proof -
  have z: "drop_bit 7 (drop_bit 7 (drop_bit 7 v)) = 0"
    by (rule bit_word_eqI) (auto simp: bit_simps dest: bit_imp_le_length)
  have d: "drop_bit 7 (drop_bit 7 v) = drop_bit 14 v" by (simp add: drop_bit_drop_bit)
  show ?thesis
  proof (cases "drop_bit 7 v = 0")
    case True
    then show ?thesis by (simp add: rem_len_bytes_last)
  next
    case False
    show ?thesis
    proof (cases "drop_bit 14 v = 0")
      case True
      with False d show ?thesis
        by (simp add: rem_len_bytes_more[of v] rem_len_bytes_last[of "drop_bit 7 v"])
    next
      case n: False
      with False d z show ?thesis
        by (simp add: rem_len_bytes_more[of v] rem_len_bytes_more[of "drop_bit 7 v"]
            rem_len_bytes_last[of "drop_bit 14 v"])
    qed
  qed
qed

lemma push_or_split:
  "push_bit k (ucast (v AND 0x7F) :: u32) OR push_bit (7 + k) (ucast (drop_bit 7 v))
     = push_bit k (ucast (v :: u16))"
proof -
  have "push_bit k (ucast (v AND 0x7F) :: u32) OR push_bit (7 + k) (ucast (drop_bit 7 v))
      = push_bit k (ucast (v AND 0x7F) OR push_bit 7 (ucast (drop_bit 7 v)) :: u32)"
    by (rule bit_word_eqI) (auto simp: bit_simps)
  then show ?thesis by (simp flip: vli_split)
qed

lemma calc_rem_len_bytes:
  "unat (msg_rem_len_mult c) + length (rem_len_bytes v) \<le> 255 \<Longrightarrow>
   \<exists>c'. calc_rem_len c (rem_len_bytes v @ rest) = Some (c', rest)
      \<and> msg_rem_len c' = msg_rem_len c OR push_bit (7 * unat (msg_rem_len_mult c)) (ucast v)"
proof (induction v arbitrary: c rule: rem_len_bytes.induct)
  case (1 v)
  let ?b = "ucast ((v AND 0x7F) OR (if v > 0x7F then 0x80 else 0)) :: u8"
  let ?c1 = "calc_rem_len_byte c ?b"
  have m1: "msg_rem_len ?c1 = msg_rem_len c OR push_bit (7 * unat (msg_rem_len_mult c)) (ucast (v AND 0x7F))"
    by (simp add: calc_rem_len_byte_def vli_byte_low)
  show ?case
  proof (cases "drop_bit 7 v = 0")
    case True
    then have n: "\<not> v > 0x7F" using gt_7F_iff[of v] by simp
    have e: "rem_len_bytes v = [?b]" using True n by (simp add: rem_len_bytes_last)
    have v: "v AND 0x7F = v"
      using True by (simp add: and_0x7F take_bit_eq_self_iff_drop_bit_eq_0)
    have "calc_rem_len c (rem_len_bytes v @ rest) = Some (?c1, rest)"
      using vli_byte_cont[of v] n by (simp add: e Let_def)
    with m1 v show ?thesis by simp
  next
    case False
    then have g: "v > 0x7F" "0 < drop_bit 7 v" using gt_7F_iff[of v] by (simp_all add: word_greater_zero_iff)
    have e: "rem_len_bytes v = ?b # rem_len_bytes (drop_bit 7 v)"
      using False g by (simp add: rem_len_bytes_more)
    have lt: "unat (msg_rem_len_mult c) < 255" using "1.prems" e by simp
    then have u: "unat (msg_rem_len_mult ?c1) = unat (msg_rem_len_mult c) + 1"
      by (simp add: calc_rem_len_byte_def unat_word_ariths)
    have pre: "unat (msg_rem_len_mult ?c1) + length (rem_len_bytes (drop_bit 7 v)) \<le> 255"
      using "1.prems" e u by simp
    obtain c' where c': "calc_rem_len ?c1 (rem_len_bytes (drop_bit 7 v) @ rest) = Some (c', rest)"
      "msg_rem_len c' = msg_rem_len ?c1 OR push_bit (7 * unat (msg_rem_len_mult ?c1)) (ucast (drop_bit 7 v))"
      using "1.IH"[OF refl refl g(2) pre] by blast
    have s: "calc_rem_len c (rem_len_bytes v @ rest) = Some (c', rest)"
      using vli_byte_cont[of v] g(1) c'(1) by (simp add: e Let_def)
    have "msg_rem_len c' = msg_rem_len c OR push_bit (7 * unat (msg_rem_len_mult c)) (ucast v)"
      using c'(2) m1 u push_or_split[of "7 * unat (msg_rem_len_mult c)" v]
      by (simp add: or.assoc)
    with s show ?thesis by blast
  qed
qed

text \<open>
  For every remaining length \<open>w\<close> in [0, 65535], passed as the callers do from a 32-bit
  variable to the encoder of \<open>prv_write_fixed_header\<close>: the encoder emits at least one and
  at most three bytes, and the parser, started by \<open>MQTT_PARSER_STATE_INIT\<close> on any header
  byte and fed these bytes followed by any further bytes \<open>d\<close>, ends the
  \<open>MQTT_PARSER_STATE_CALC_REM_LEN\<close> accumulation exactly after them with
  \<open>msg_rem_len = w\<close>.
\<close>

theorem vli_roundtrip:
  assumes "w \<le> (65535 :: u32)"
  shows "map_option (\<lambda>(c', d). (msg_rem_len c', d))
           (calc_rem_len (parser_init c hdr) (rem_len_bytes (ucast w) @ d)) = Some (w, d)
         \<and> 1 \<le> length (rem_len_bytes (ucast w)) \<and> length (rem_len_bytes (ucast w)) \<le> 3"
proof -
  let ?v = "ucast w :: u16"
  have l: "length (rem_len_bytes ?v) \<le> 3" "1 \<le> length (rem_len_bytes ?v)"
    by (simp_all add: rem_len_bytes_length)
  have i: "msg_rem_len (parser_init c hdr) = 0" "msg_rem_len_mult (parser_init c hdr) = 0"
    by (simp_all add: parser_init_def)
  have "unat w \<le> 65535" using assms by (simp add: word_le_nat_alt)
  then have "take_bit 16 (unat w) = unat w" by (simp add: take_bit_nat_eq_self)
  then have ucast_v: "(ucast ?v :: u32) = w"
    by (simp add: word_eq_iff_unsigned[where ?'a = nat] unsigned_ucast_eq unsigned_take_bit_eq)
  obtain c' where "calc_rem_len (parser_init c hdr) (rem_len_bytes ?v @ d) = Some (c', d)"
      "msg_rem_len c' = msg_rem_len (parser_init c hdr)
          OR push_bit (7 * unat (msg_rem_len_mult (parser_init c hdr))) (ucast ?v)"
    using calc_rem_len_bytes[of "parser_init c hdr" ?v d] l i by auto
  then have "map_option (\<lambda>(c', d). (msg_rem_len c', d))
           (calc_rem_len (parser_init c hdr) (rem_len_bytes (ucast w) @ d)) = Some (w, d)"
    using i ucast_v by simp
  with l show ?thesis by simp
qed

theorem vli_roundtrip_witness:
  "(65535 :: u32) \<le> 65535
   \<and> rem_len_bytes (ucast (65535 :: u32)) = [0xFF, 0xFF, 0x03]
   \<and> rem_len_bytes (ucast (0 :: u32)) = [0x00]
   \<and> rem_len_bytes (ucast (128 :: u32)) = [0x80, 0x01]
   \<and> map_option (\<lambda>(c', d). (msg_rem_len c', d))
         (calc_rem_len (parser_init (connected_client 32 2) 0x30) ([0xFF, 0xFF, 0x03] @ [0x00, 0x01]))
       = Some (65535, [0x00, 0x01])
   \<and> map_option (\<lambda>(c', d). (msg_rem_len c', d))
         (calc_rem_len (parser_init (connected_client 32 2) 0x30) ([0x80, 0x01] @ []))
       = Some (128, [])"
proof -
  have e: "rem_len_bytes (ucast (65535 :: u32)) = [0xFF, 0xFF, 0x03]"
    "rem_len_bytes (ucast (0 :: u32)) = [0x00]"
    "rem_len_bytes (ucast (128 :: u32)) = [0x80, 0x01]"
    by code_simp+
  have h: "(65535 :: u32) \<le> 65535" "(128 :: u32) \<le> 65535" by simp_all
  show ?thesis
    using vli_roundtrip[of 65535 "connected_client 32 2" "0x30" "[0x00, 0x01]"]
      vli_roundtrip[of 128 "connected_client 32 2" "0x30" "[]"] e h
    by simp
qed

section \<open>Evaluating runs of the client\<close>

text \<open>
  A run is evaluated in two passes of the simplifier on a concrete client: first the equations
  that decide the path through an entry point, then the equations of the statements on that
  path.
\<close>

lemmas control_defs =
  lwcell_mqtt_client_subscribe_def lwcell_mqtt_client_unsubscribe_def prv_sub_unsub_def
  lwcell_mqtt_client_publish_def prv_output_check_enough_memory_def total_len_loop.simps
  lwcell_buff_get_free_def prv_create_packet_id_def prv_request_create_def
  prv_mqtt_data_sent_cb_def prv_mqtt_process_incoming_message_def MQTT_RCV_GET_PACKET_TYPE_def
  MQTT_REQUEST_FLAG_IN_USE_def zero_request_def Let_def

lemmas data_defs =
  prv_request_delete_def prv_request_set_pending_def
  prv_request_get_pending_def prv_write_fixed_header_def prv_write_u8_def prv_write_u16_def
  prv_write_string_def prv_write_data_def prv_send_data_def fixed_header_byte_def
  request_or_status_def request_set_expected_sent_len_def when_do_def
  lwcell_buff_write_def lwcell_buff_get_free_def lwcell_buff_get_full_def lwcell_buff_skip_def
  lwcell_buff_reset_def lwcell_buff_get_linear_block_read_length_def
  process_final_ack_def evt_fn_def rx_u16_def
  MQTT_REQUEST_FLAG_IN_USE_def MQTT_REQUEST_FLAG_PENDING_def MQTT_REQUEST_FLAG_SUBSCRIBE_def
  MQTT_REQUEST_FLAG_UNSUBSCRIBE_def LWCELL_MQTT_QOS_AT_LEAST_ONCE_def LWCELL_MQTT_QOS_EXACTLY_ONCE_def
  zero_request_def Let_def rem_len_bytes.simps sent_retire.simps payload_hi_def payload_dots_def

lemma replicate_2: "replicate 2 x = [x, x]"
  by (simp add: numeral_2_eq_2)

lemma replicate_3: "replicate 3 x = [x, x, x]"
  by (simp add: numeral_3_eq_3)

lemma upt_0_8: "[0..<8] = [0, 1, 2, 3, 4, 5, 6, 7]"
  by (simp add: upt_rec)

lemma upt_0_2: "[0..<2] = [0, 1]"
  by (simp add: numeral_2_eq_2)

section \<open>QoS-0 publishes and the send-complete handler\<close>

text \<open>
  A single QoS-0 publish of \<open>hi\<close> on \<open>t\<close> on a fresh connected client: the request gets
  \<open>expected_sent_len = written_total + 7\<close>, and the send-complete event for these 7 bytes
  emits the PUBLISH event with \<open>lwcellOK\<close>.
\<close>

lemma single_qos0_publish:
  "lwcell_mqtt_client_publish (connected_client 64 2) [0x74] (Some payload_hi) 2 0 0 5 0 True =
     (lwcellOK, (connected_client 64 2)\<lparr>
        tx_buff := \<lparr>b_size = 64, b_r = 0, b_data = [0x30, 5, 0, 1, 0x74, 0x68, 0x69]\<rparr>,
        is_sending := 1, written_total := 7,
        requests := [\<lparr>status = 3, packet_id = 0, arg = 5, expected_sent_len = 7, timeout_start_time = 0\<rparr>,
                     zero_request]\<rparr>)
   \<and> evts (snd (prv_mqtt_data_sent_cb
                  (snd (lwcell_mqtt_client_publish (connected_client 64 2) [0x74] (Some payload_hi)
                          2 0 0 5 0 True))
                  7 True lwcellOK True))
       = [LWCELL_MQTT_EVT_PUBLISH 5 lwcellOK]"
proof -
  have p: "lwcell_mqtt_client_publish (connected_client 64 2) [0x74] (Some payload_hi) 2 0 0 5 0 True =
     (lwcellOK, (connected_client 64 2)\<lparr>
        tx_buff := \<lparr>b_size = 64, b_r = 0, b_data = [0x30, 5, 0, 1, 0x74, 0x68, 0x69]\<rparr>,
        is_sending := 1, written_total := 7,
        requests := [\<lparr>status = 3, packet_id = 0, arg = 5, expected_sent_len = 7, timeout_start_time = 0\<rparr>,
                     zero_request]\<rparr>)"
    apply (simp add: connected_client_def replicate_2 control_defs)
    apply (simp add: data_defs upt_0_2)
    done
  show ?thesis
    unfolding p
    apply (simp add: connected_client_def replicate_2 control_defs)
    apply (simp add: data_defs)
    done
qed

lemma hol1_eq: "hol1 = (connected_client 64 2)\<lparr>
     tx_buff := \<lparr>b_size = 64, b_r = 0, b_data = [0x82, 6, 0, 1, 0, 1, 0x61, 0]\<rparr>,
     is_sending := 1, written_total := 8, last_packet_id := 1,
     requests := [\<lparr>status = 7, packet_id = 1, arg = 1, expected_sent_len = 0, timeout_start_time = 0\<rparr>,
                  zero_request]\<rparr>"
  unfolding hol1_def
  apply (simp add: connected_client_def replicate_2 control_defs)
  apply (simp add: data_defs)
  done

lemma hol2_eq: "hol2 = (connected_client 64 2)\<lparr>
     sent_total := 8, written_total := 8, last_packet_id := 1,
     requests := [\<lparr>status = 7, packet_id = 1, arg = 1, expected_sent_len = 0, timeout_start_time = 0\<rparr>,
                  zero_request]\<rparr>"
  unfolding hol2_def hol1_eq
  apply (simp add: connected_client_def replicate_2 control_defs)
  apply (simp add: data_defs)
  done

lemma hol3_eq: "hol3 = (connected_client 64 2)\<lparr>
     tx_buff := \<lparr>b_size = 64, b_r = 0, b_data = [0x30, 5, 0, 1, 0x74, 0x68, 0x69]\<rparr>,
     is_sending := 1, sent_total := 8, written_total := 15, last_packet_id := 1,
     requests := [\<lparr>status = 7, packet_id = 1, arg = 1, expected_sent_len = 0, timeout_start_time = 0\<rparr>,
                  \<lparr>status = 3, packet_id = 0, arg = 2, expected_sent_len = 15, timeout_start_time = 0\<rparr>]\<rparr>"
  unfolding hol3_def hol2_eq
  apply (simp add: connected_client_def replicate_2 control_defs)
  apply (simp add: data_defs upt_0_2)
  done

lemma hol4_eq: "hol4 = suback_1 ((connected_client 64 2)\<lparr>
     evts := [LWCELL_MQTT_EVT_SUBSCRIBE 1 lwcellOK],
     tx_buff := \<lparr>b_size = 64, b_r = 0, b_data = [0x30, 5, 0, 1, 0x74, 0x68, 0x69]\<rparr>,
     is_sending := 1, sent_total := 8, written_total := 15, last_packet_id := 1,
     requests := [\<lparr>status = 0, packet_id = 1, arg = 1, expected_sent_len = 0, timeout_start_time = 0\<rparr>,
                  \<lparr>status = 3, packet_id = 0, arg = 2, expected_sent_len = 15, timeout_start_time = 0\<rparr>]\<rparr>)"
  unfolding hol4_def hol3_eq
  apply (simp add: connected_client_def replicate_2 suback_1_def control_defs)
  apply (simp add: data_defs)
  done

lemma hol5_eq: "hol5 = suback_1 ((connected_client 64 2)\<lparr>
     evts := [LWCELL_MQTT_EVT_SUBSCRIBE 1 lwcellOK],
     tx_buff := \<lparr>b_size = 64, b_r = 0,
                 b_data = [0x30, 5, 0, 1, 0x74, 0x68, 0x69, 0x30, 5, 0, 1, 0x74, 0x68, 0x69]\<rparr>,
     is_sending := 1, sent_total := 8, written_total := 15, last_packet_id := 1,
     requests := [\<lparr>status = 3, packet_id = 0, arg = 3, expected_sent_len = 22, timeout_start_time = 0\<rparr>,
                  \<lparr>status = 3, packet_id = 0, arg = 2, expected_sent_len = 15, timeout_start_time = 0\<rparr>]\<rparr>)"
  unfolding hol5_def hol4_eq
  apply (simp add: connected_client_def replicate_2 suback_1_def control_defs)
  apply (simp add: data_defs upt_0_2)
  done

lemma hol6_eq: "hol6 = suback_1 ((connected_client 64 2)\<lparr>
     evts := [LWCELL_MQTT_EVT_SUBSCRIBE 1 lwcellOK],
     tx_buff := \<lparr>b_size = 64, b_r = 7, b_data = [0x30, 5, 0, 1, 0x74, 0x68, 0x69]\<rparr>,
     is_sending := 1, sent_total := 15, written_total := 22, last_packet_id := 1,
     requests := [\<lparr>status = 3, packet_id = 0, arg = 3, expected_sent_len = 22, timeout_start_time = 0\<rparr>,
                  \<lparr>status = 3, packet_id = 0, arg = 2, expected_sent_len = 15, timeout_start_time = 0\<rparr>]\<rparr>)"
  unfolding hol6_def hol5_eq
  apply (simp add: connected_client_def replicate_2 suback_1_def control_defs)
  apply (simp add: data_defs)
  done

lemma hol7_eq: "hol7 = suback_1 ((connected_client 64 2)\<lparr>
     evts := [LWCELL_MQTT_EVT_SUBSCRIBE 1 lwcellOK, LWCELL_MQTT_EVT_PUBLISH 3 lwcellOK,
              LWCELL_MQTT_EVT_PUBLISH 2 lwcellOK],
     tx_buff := \<lparr>b_size = 64, b_r = 0, b_data = []\<rparr>,
     is_sending := 0, sent_total := 22, written_total := 22, last_packet_id := 1,
     requests := [\<lparr>status = 0, packet_id = 0, arg = 3, expected_sent_len = 22, timeout_start_time = 0\<rparr>,
                  \<lparr>status = 0, packet_id = 0, arg = 2, expected_sent_len = 15, timeout_start_time = 0\<rparr>]\<rparr>)"
  unfolding hol7_def hol6_eq
  apply (simp add: connected_client_def replicate_2 suback_1_def control_defs)
  apply (simp add: data_defs)
  done

lemma early1_eq: "early1 = (connected_client 32 3)\<lparr>
     tx_buff := \<lparr>b_size = 32, b_r = 0,
                 b_data = [0x30, 11, 0, 1, 0x74, 0x2E, 0x2E, 0x2E, 0x2E, 0x2E, 0x2E, 0x2E, 0x2E]\<rparr>,
     is_sending := 1, written_total := 13,
     requests := [\<lparr>status = 3, packet_id = 0, arg = 1, expected_sent_len = 13, timeout_start_time = 0\<rparr>,
                  zero_request, zero_request]\<rparr>"
  unfolding early1_def
  apply (simp add: connected_client_def replicate_3 control_defs)
  apply (simp add: data_defs upt_0_8)
  done

lemma early2_eq: "early2 = (connected_client 32 3)\<lparr>
     tx_buff := \<lparr>b_size = 32, b_r = 0,
                 b_data = [0x30, 11, 0, 1, 0x74, 0x2E, 0x2E, 0x2E, 0x2E, 0x2E, 0x2E, 0x2E, 0x2E,
                           0x82, 6, 0, 1, 0, 1, 0x61, 0]\<rparr>,
     is_sending := 1, written_total := 13, last_packet_id := 1,
     requests := [\<lparr>status = 3, packet_id = 0, arg = 1, expected_sent_len = 13, timeout_start_time = 0\<rparr>,
                  \<lparr>status = 7, packet_id = 1, arg = 2, expected_sent_len = 0, timeout_start_time = 0\<rparr>,
                  zero_request]\<rparr>"
  unfolding early2_def early1_eq
  apply (simp add: connected_client_def replicate_3 control_defs)
  apply (simp add: data_defs)
  done

lemma early3_eq: "early3 = (connected_client 32 3)\<lparr>
     evts := [LWCELL_MQTT_EVT_PUBLISH 1 lwcellOK],
     tx_buff := \<lparr>b_size = 32, b_r = 13, b_data = [0x82, 6, 0, 1, 0, 1, 0x61, 0]\<rparr>,
     is_sending := 1, sent_total := 13, written_total := 21, last_packet_id := 1,
     requests := [\<lparr>status = 0, packet_id = 0, arg = 1, expected_sent_len = 13, timeout_start_time = 0\<rparr>,
                  \<lparr>status = 7, packet_id = 1, arg = 2, expected_sent_len = 0, timeout_start_time = 0\<rparr>,
                  zero_request]\<rparr>"
  unfolding early3_def early2_eq
  apply (simp add: connected_client_def replicate_3 control_defs)
  apply (simp add: data_defs)
  done

lemma early4_eq: "early4 = (connected_client 32 3)\<lparr>
     evts := [LWCELL_MQTT_EVT_PUBLISH 1 lwcellOK],
     tx_buff := \<lparr>b_size = 32, b_r = 13,
                 b_data = [0x82, 6, 0, 1, 0, 1, 0x61, 0, 0x30, 5, 0, 1, 0x74, 0x68, 0x69]\<rparr>,
     is_sending := 1, sent_total := 13, written_total := 21, last_packet_id := 1,
     requests := [\<lparr>status = 3, packet_id = 0, arg = 3, expected_sent_len = 28, timeout_start_time = 0\<rparr>,
                  \<lparr>status = 7, packet_id = 1, arg = 2, expected_sent_len = 0, timeout_start_time = 0\<rparr>,
                  zero_request]\<rparr>"
  unfolding early4_def early3_eq
  apply (simp add: connected_client_def replicate_3 control_defs)
  apply (simp add: data_defs upt_0_2)
  done

lemma early5_eq: "early5 = (connected_client 32 3)\<lparr>
     evts := [LWCELL_MQTT_EVT_PUBLISH 1 lwcellOK],
     tx_buff := \<lparr>b_size = 32, b_r = 13,
                 b_data = [0x82, 6, 0, 1, 0, 1, 0x61, 0, 0x30, 5, 0, 1, 0x74, 0x68, 0x69,
                           0x30, 5, 0, 1, 0x74, 0x68, 0x69]\<rparr>,
     is_sending := 1, sent_total := 13, written_total := 21, last_packet_id := 1,
     requests := [\<lparr>status = 3, packet_id = 0, arg = 3, expected_sent_len = 28, timeout_start_time = 0\<rparr>,
                  \<lparr>status = 7, packet_id = 1, arg = 2, expected_sent_len = 0, timeout_start_time = 0\<rparr>,
                  \<lparr>status = 3, packet_id = 0, arg = 4, expected_sent_len = 28, timeout_start_time = 0\<rparr>]\<rparr>"
  unfolding early5_def early4_eq
  apply (simp add: connected_client_def replicate_3 control_defs)
  apply (simp add: data_defs upt_0_2)
  done

lemma early6_eq: "early6 = (connected_client 32 3)\<lparr>
     evts := [LWCELL_MQTT_EVT_PUBLISH 1 lwcellOK],
     tx_buff := \<lparr>b_size = 32, b_r = 21,
                 b_data = [0x30, 5, 0, 1, 0x74, 0x68, 0x69, 0x30, 5, 0, 1, 0x74, 0x68, 0x69]\<rparr>,
     is_sending := 1, sent_total := 21, written_total := 32, last_packet_id := 1,
     requests := [\<lparr>status = 3, packet_id = 0, arg = 3, expected_sent_len = 28, timeout_start_time = 0\<rparr>,
                  \<lparr>status = 7, packet_id = 1, arg = 2, expected_sent_len = 0, timeout_start_time = 0\<rparr>,
                  \<lparr>status = 3, packet_id = 0, arg = 4, expected_sent_len = 28, timeout_start_time = 0\<rparr>]\<rparr>"
  unfolding early6_def early5_eq
  apply (simp add: connected_client_def replicate_3 control_defs)
  apply (simp add: data_defs)
  done

lemma early7_eq: "early7 = (connected_client 32 3)\<lparr>
     evts := [LWCELL_MQTT_EVT_PUBLISH 1 lwcellOK, LWCELL_MQTT_EVT_PUBLISH 3 lwcellOK,
              LWCELL_MQTT_EVT_PUBLISH 4 lwcellOK],
     tx_buff := \<lparr>b_size = 32, b_r = 0, b_data = [0x74, 0x68, 0x69]\<rparr>,
     is_sending := 1, sent_total := 32, written_total := 35, last_packet_id := 1,
     requests := [\<lparr>status = 0, packet_id = 0, arg = 3, expected_sent_len = 28, timeout_start_time = 0\<rparr>,
                  \<lparr>status = 7, packet_id = 1, arg = 2, expected_sent_len = 0, timeout_start_time = 0\<rparr>,
                  \<lparr>status = 0, packet_id = 0, arg = 4, expected_sent_len = 28, timeout_start_time = 0\<rparr>]\<rparr>"
  unfolding early7_def early6_eq
  apply (simp add: connected_client_def replicate_3 control_defs)
  apply (simp add: data_defs)
  done

text \<open>
  C1. The code stamps \<open>expected_sent_len = written_total + raw_len\<close> and the send-complete
  handler retires the first pending request with packet identifier 0 while its
  \<open>expected_sent_len\<close> is at most \<open>sent_total\<close>; the PUBLISH event of a QoS-0 publish is
  nevertheless not emitted exactly when its bytes have left the host.

  In the first run the publish with user argument 2 has \<open>expected_sent_len = 15\<close>. The
  send-complete event that brings \<open>sent_total\<close> to 15 emits no event: slot 0, reused by the
  later publish with user argument 3 (\<open>expected_sent_len = 22\<close>), is examined first and stops
  the loop. The event for argument 2 comes with the next send-complete event, after the event
  for argument 3.

  In the second run the publish with user argument 4 is enqueued when \<open>written_total = 21\<close>
  while 15 bytes written before it are still waiting in the ring, so its
  \<open>expected_sent_len\<close> is 28 although its last byte is the 35th of the connection. The
  send-complete event that brings \<open>sent_total\<close> to 32 emits its PUBLISH event while its last
  three bytes (\<open>t h i\<close>) are still in the TX ring.
\<close>

theorem qos0_completion_runs:
  "expected_sent_len (requests hol5 ! 1) = 15 \<and> arg (requests hol5 ! 1) = 2
   \<and> sent_total hol5 = 8 \<and> sent_total hol6 = 15
   \<and> evts hol5 = [LWCELL_MQTT_EVT_SUBSCRIBE 1 lwcellOK]
   \<and> evts hol6 = [LWCELL_MQTT_EVT_SUBSCRIBE 1 lwcellOK]
   \<and> evts hol7 = [LWCELL_MQTT_EVT_SUBSCRIBE 1 lwcellOK, LWCELL_MQTT_EVT_PUBLISH 3 lwcellOK,
                   LWCELL_MQTT_EVT_PUBLISH 2 lwcellOK]
   \<and> written_total early4 = 21 \<and> length (b_data (tx_buff early4)) = 15
   \<and> expected_sent_len (requests early5 ! 2) = 28 \<and> arg (requests early5 ! 2) = 4
   \<and> sent_total early6 = 21 \<and> evts early6 = [LWCELL_MQTT_EVT_PUBLISH 1 lwcellOK]
   \<and> sent_total early7 = 32
   \<and> evts early7 = [LWCELL_MQTT_EVT_PUBLISH 1 lwcellOK, LWCELL_MQTT_EVT_PUBLISH 3 lwcellOK,
                     LWCELL_MQTT_EVT_PUBLISH 4 lwcellOK]
   \<and> b_data (tx_buff early7) = [0x74, 0x68, 0x69]"
  by (simp add: hol5_eq hol6_eq hol7_eq early4_eq early5_eq early6_eq early7_eq suback_1_def)

section \<open>The check for room in the TX buffer\<close>

lemma total_len_loop_eq: "total_len_loop t r = t + of_nat (length (rem_len_bytes r))"
proof (induction t r rule: total_len_loop.induct)
  case (1 t r)
  show ?case
  proof (cases "drop_bit 7 r = 0")
    case True
    then show ?thesis
      by (subst total_len_loop.simps) (simp add: Let_def rem_len_bytes_last)
  next
    case False
    then have g: "0 < drop_bit 7 r" by (simp add: word_greater_zero_iff)
    have "total_len_loop t r = total_len_loop (t + 1) (drop_bit 7 r)"
      using g by (subst total_len_loop.simps) (simp add: Let_def)
    also have "\<dots> = t + 1 + of_nat (length (rem_len_bytes (drop_bit 7 r)))"
      using "1.IH"[OF refl refl g] .
    finally show ?thesis using False by (simp add: rem_len_bytes_more)
  qed
qed

lemma check_enough_memory_in_range:
  assumes "unat rem_len + 1 + length (rem_len_bytes rem_len) < 65536"
    and "lwcell_buff_get_free (tx_buff c) < 65536"
  shows "unat (prv_output_check_enough_memory c rem_len) =
           (if unat rem_len + 1 + length (rem_len_bytes rem_len) \<le> lwcell_buff_get_free (tx_buff c)
            then unat rem_len + 1 + length (rem_len_bytes rem_len) else 0)"
proof -
  define n where "n = unat rem_len + 1 + length (rem_len_bytes rem_len)"
  define f where "f = lwcell_buff_get_free (tx_buff c)"
  have t: "total_len_loop (rem_len + 1) rem_len = of_nat n"
    by (simp add: total_len_loop_eq n_def)
  have "n mod 65536 = n" using assms(1) by (simp add: n_def)
  then have u: "unat (of_nat n :: u16) = n" by (simp add: unat_of_nat)
  have "f mod 65536 = f" using assms(2) by (simp add: f_def)
  then have v: "unat (of_nat f :: u16) = f" by (simp add: unat_of_nat)
  have "unat (prv_output_check_enough_memory c rem_len) = (if n \<le> f then n else 0)"
    unfolding prv_output_check_enough_memory_def Let_def t f_def[symmetric]
    using u v by (simp add: word_le_nat_alt)
  then show ?thesis by (simp add: n_def f_def)
qed

text \<open>
  Successive writes into the ring amount to one write of the concatenated bytes, so the TX
  buffer after an accepted publish is the TX buffer before it with the bytes of the packet
  written at once. Where the 16-bit sum does not wrap, the check has passed only if the whole
  packet fits, and the packet is then appended in full.
\<close>

lemma buff_write_write:
  "lwcell_buff_write (lwcell_buff_write b xs) ys = lwcell_buff_write b (xs @ ys)"
proof (cases "length xs \<le> b_size b - 1 - length (b_data b)")
  case True
  then show ?thesis by (simp add: lwcell_buff_write_def lwcell_buff_get_free_def min_def)
next
  case False
  then show ?thesis by (simp add: lwcell_buff_write_def lwcell_buff_get_free_def min_def)
qed

lemma buff_write_foldl:
  "foldl (\<lambda>b x. lwcell_buff_write b [x]) b xs = lwcell_buff_write b xs"
proof (induction xs arbitrary: b)
  case Nil
  show ?case by (simp add: lwcell_buff_write_def)
next
  case (Cons x xs)
  show ?case using Cons[of "lwcell_buff_write b [x]"] by (simp add: buff_write_write)
qed

lemma tx_write_u8: "tx_buff (prv_write_u8 c x) = lwcell_buff_write (tx_buff c) [x]"
  by (simp add: prv_write_u8_def)

lemma tx_write_u16:
  "tx_buff (prv_write_u16 c n) = lwcell_buff_write (tx_buff c) [ucast (drop_bit 8 n), ucast (n AND 0xFF)]"
  by (simp add: prv_write_u16_def tx_write_u8 buff_write_write)

lemma tx_write_data: "tx_buff (prv_write_data c xs) = lwcell_buff_write (tx_buff c) xs"
  by (simp add: prv_write_data_def)

lemma tx_write_string:
  "tx_buff (prv_write_string c s n) =
     lwcell_buff_write (tx_buff c) ([ucast (drop_bit 8 n), ucast (n AND 0xFF)] @ take (unat n) s)"
  by (simp add: prv_write_string_def Let_def tx_write_u16 buff_write_write)

lemma tx_write_fixed_header:
  "tx_buff (prv_write_fixed_header c t d q r n) =
     lwcell_buff_write (tx_buff c) (fixed_header_byte t d q r # rem_len_bytes n)"
  by (simp add: write_fixed_header_eq buff_write_foldl)

lemma tx_set_pending: "tx_buff (prv_request_set_pending c i now) = tx_buff c"
  by (simp add: prv_request_set_pending_def)

lemma tx_set_expected: "tx_buff (request_set_expected_sent_len c i n) = tx_buff c"
  by (simp add: request_set_expected_sent_len_def)

lemma tx_create: "tx_buff (snd (prv_request_create c p a)) = tx_buff c"
  by (simp add: prv_request_create_def split: option.splits)

lemma publish_writes_tx:
  "tx_buff (prv_request_set_pending
      ((case payload of
          Some p \<Rightarrow> when_do (n > 0) (\<lambda>c. prv_write_data c (map p [0..<unat n]))
        | None \<Rightarrow> (\<lambda>c. c))
        (when_do (qos \<noteq> 0) (\<lambda>c. prv_write_u16 c pkt_id)
          (prv_write_string
            (prv_write_fixed_header (request_set_expected_sent_len c2 i raw)
               MQTT_MSG_TYPE_PUBLISH 0 q retain r)
            topic lt)))
      i now) =
   lwcell_buff_write (tx_buff c2)
     (fixed_header_byte MQTT_MSG_TYPE_PUBLISH 0 q retain # rem_len_bytes r
        @ [ucast (drop_bit 8 lt), ucast (lt AND 0xFF)] @ take (unat lt) topic
        @ (if qos \<noteq> 0 then [ucast (drop_bit 8 pkt_id), ucast (pkt_id AND 0xFF)] else [])
        @ (case payload of Some p \<Rightarrow> map p [0..<unat n] | None \<Rightarrow> []))"
proof -
  have z: "\<not> 0 < n \<Longrightarrow> unat n = 0" by (simp add: word_greater_zero_iff)
  show ?thesis
    by (cases payload)
       (auto simp: tx_set_pending when_do_def tx_write_u16 tx_write_string tx_write_fixed_header
          tx_set_expected tx_write_data buff_write_write z)
qed

lemma send_data_b_data:
  "b_r (tx_buff c) < b_size (tx_buff c) \<Longrightarrow>
   b_data (tx_buff (prv_send_data c ok)) = b_data (tx_buff c)"
  by (auto simp: prv_send_data_def Let_def lwcell_buff_reset_def
        lwcell_buff_get_linear_block_read_length_def)

lemma buff_write_frame:
  "b_r (lwcell_buff_write b xs) = b_r b" "b_size (lwcell_buff_write b xs) = b_size b"
  by (simp_all add: lwcell_buff_write_def)

lemma publish_tx:
  assumes "fst (lwcell_mqtt_client_publish c topic payload n qos retain a now ok) = lwcellOK"
    and "b_r (tx_buff c) < b_size (tx_buff c)"
  shows "b_data (tx_buff (snd (lwcell_mqtt_client_publish c topic payload n qos retain a now ok))) =
           b_data (lwcell_buff_write (tx_buff c)
             (publish_packet topic payload n qos retain
                (if qos > 0 then fst (prv_create_packet_id c) else 0)))"
proof -
  obtain p c1 where p: "(if qos > 0 then prv_create_packet_id c else (0, c)) = (p, c1)"
    by (cases "if qos > 0 then prv_create_packet_id c else (0, c)")
  obtain r c2 where r: "prv_request_create c1 p a = (r, c2)" by (cases "prv_request_create c1 p a")
  have t1: "tx_buff c1 = tx_buff c" using p create_packet_id_frame(1)[of c] by (auto split: if_splits)
  have t2: "tx_buff c2 = tx_buff c" using tx_create[of c1 p a] r t1 by simp
  have pid: "p = (if qos > 0 then fst (prv_create_packet_id c) else 0)"
    using p by (auto split: if_splits)
  from assms(1) obtain i where i: "r = Some i"
    using p r by (cases r) (auto simp: lwcell_mqtt_client_publish_def Let_def split: if_splits)
  define lt where "lt = (of_nat (length topic) :: u16)"
  define rl where "rl = (2 + ucast lt + (if payload \<noteq> None then ucast n else 0)
                       + (if qos > 0 then 2 else 0) :: u32)"
  define raw where "raw = (ucast (prv_output_check_enough_memory c (ucast rl)) :: u32)"
  define W where "W = prv_request_set_pending
      ((case payload of
          Some p \<Rightarrow> when_do (n > 0) (\<lambda>c. prv_write_data c (map p [0..<unat n]))
        | None \<Rightarrow> (\<lambda>c. c))
        (when_do (qos \<noteq> 0) (\<lambda>c. prv_write_u16 c p)
          (prv_write_string
            (prv_write_fixed_header (request_set_expected_sent_len c2 i raw)
               MQTT_MSG_TYPE_PUBLISH 0 (min qos LWCELL_MQTT_QOS_EXACTLY_ONCE) retain (ucast rl))
            topic lt)))
      i now"
  have res: "snd (lwcell_mqtt_client_publish c topic payload n qos retain a now ok) = prv_send_data W ok"
    using assms(1) p r i
    unfolding lwcell_mqtt_client_publish_def Let_def W_def raw_def rl_def lt_def
    by (simp split: if_splits)
  have w: "tx_buff W = lwcell_buff_write (tx_buff c) (publish_packet topic payload n qos retain p)"
    unfolding W_def publish_writes_tx publish_packet_def Let_def rl_def lt_def t2 by simp
  have "b_r (tx_buff W) < b_size (tx_buff W)" using assms(2) by (simp add: w buff_write_frame)
  then show ?thesis using send_data_b_data[of W ok] by (simp add: res w pid)
qed


lemma publish_accepted_check:
  assumes "fst (lwcell_mqtt_client_publish c topic payload n qos retain a now ok) = lwcellOK"
  shows "prv_output_check_enough_memory c
           (ucast (2 + ucast (of_nat (length topic) :: u16) + (if payload \<noteq> None then ucast n else 0)
                     + (if qos > 0 then 2 else 0) :: u32)) \<noteq> 0"
proof -
  have "(ucast (prv_output_check_enough_memory c
           (ucast (2 + ucast (of_nat (length topic) :: u16) + (if payload \<noteq> None then ucast n else 0)
                     + (if qos > 0 then 2 else 0) :: u32))) :: u32) \<noteq> 0"
    using assms
    by (auto simp: lwcell_mqtt_client_publish_def Let_def split: if_splits prod.splits option.splits)
  then show ?thesis by auto
qed

lemma publish_in_range:
  assumes ok: "fst (lwcell_mqtt_client_publish c topic payload n qos retain a now ok) = lwcellOK"
    and inv: "b_r (tx_buff c) < b_size (tx_buff c)"
    and topic: "length topic < 65536"
    and range: "2 + length topic + (if payload \<noteq> None then unat n else 0) + (if qos > 0 then 2 else 0) + 4
                  < 65536"
    and free: "lwcell_buff_get_free (tx_buff c) < 65536"
  shows "b_data (tx_buff (snd (lwcell_mqtt_client_publish c topic payload n qos retain a now ok))) =
           b_data (tx_buff c) @
             publish_packet topic payload n qos retain (if qos > 0 then fst (prv_create_packet_id c) else 0)"
proof -
  define lt where "lt = (of_nat (length topic) :: u16)"
  define plen where "plen = (if payload \<noteq> None then unat n else 0)"
  define q2 where "q2 = (if qos > 0 then 2 else 0 :: nat)"
  define rl where "rl = (2 + ucast lt + (if payload \<noteq> None then ucast n else 0)
                       + (if qos > 0 then 2 else 0) :: u32)"
  define pk where "pk = publish_packet topic payload n qos retain
                          (if qos > 0 then fst (prv_create_packet_id c) else 0)"
  have ult: "unat lt = length topic" using topic by (simp add: lt_def unat_of_nat)
  have un: "unat (ucast n :: u32) = unat n" "unat (ucast lt :: u32) = unat lt"
    by (simp_all add: unsigned_ucast_eq take_bit_nat_eq_self unsigned_less[where ?'a = nat, THEN less_trans])
  have "unat n < 65536" "unat lt < 65536"
    using unsigned_less[of n, where ?'a = nat] unsigned_less[of lt, where ?'a = nat] by simp_all
  then have url: "unat rl = 2 + length topic + plen + q2"
    using ult un by (simp add: rl_def plen_def q2_def unat_word_ariths)
  then have r16: "unat (ucast rl :: u16) = 2 + length topic + plen + q2"
    using range by (simp add: unsigned_ucast_eq take_bit_nat_eq_self plen_def q2_def)
  have l3: "length (rem_len_bytes (ucast rl)) \<le> 3" by (simp add: rem_len_bytes_length)
  have q: "(qos \<noteq> 0) = (qos > 0)" by (simp add: word_greater_zero_iff)
  have pk_eq: "pk =
      fixed_header_byte MQTT_MSG_TYPE_PUBLISH 0 (min qos LWCELL_MQTT_QOS_EXACTLY_ONCE) retain
        # rem_len_bytes (ucast rl)
        @ [ucast (drop_bit 8 lt), ucast (lt AND 0xFF)] @ take (unat lt) topic
        @ (if qos \<noteq> 0
           then [ucast (drop_bit 8 (if qos > 0 then fst (prv_create_packet_id c) else 0)),
                 ucast ((if qos > 0 then fst (prv_create_packet_id c) else 0) AND 0xFF)]
           else [])
        @ (case payload of Some p \<Rightarrow> map p [0..<unat n] | None \<Rightarrow> [])"
    unfolding pk_def publish_packet_def Let_def rl_def lt_def by (rule refl)
  have lp: "length pk = unat (ucast rl :: u16) + 1 + length (rem_len_bytes (ucast rl))"
    using ult r16 q
    by (subst pk_eq) (cases payload; simp add: plen_def q2_def)
  have ir: "unat (ucast rl :: u16) + 1 + length (rem_len_bytes (ucast rl)) < 65536"
    using r16 l3 range by (simp add: plen_def q2_def)
  have "prv_output_check_enough_memory c (ucast rl) \<noteq> 0"
    using publish_accepted_check[OF ok] by (simp add: rl_def lt_def)
  then have "unat (prv_output_check_enough_memory c (ucast rl)) \<noteq> 0" by (simp add: unat_eq_0)
  then have "length pk \<le> lwcell_buff_get_free (tx_buff c)"
    using check_enough_memory_in_range[OF ir free] lp by (simp split: if_splits)
  then have "b_data (lwcell_buff_write (tx_buff c) pk) = b_data (tx_buff c) @ pk"
    by (simp add: lwcell_buff_write_def)
  then show ?thesis using publish_tx[OF ok inv] by (simp add: pk_def)
qed

text \<open>
  C8. \<open>prv_output_check_enough_memory\<close> adds in 16 bits, so for a remaining length of 65533
  (a QoS-0 publish with a topic of one byte and a payload of 65530 bytes) the sum
  \<open>65533 + 1 + 3 = 65537\<close> wraps to 1: on a TX ring with 7 free bytes the check returns 1
  instead of 0, the publish is accepted with \<open>lwcellOK\<close>, and the first 7 bytes of the packet
  (header byte, three length bytes, topic length and topic) enter the ring while the rest is
  dropped.
\<close>

theorem check_enough_memory_wraps:
  "prv_output_check_enough_memory (connected_client 8 2) 65533 = 1
   \<and> lwcell_buff_get_free (tx_buff (connected_client 8 2)) = 7
   \<and> unat (65533 :: u16) + 1 + length (rem_len_bytes 65533) = 65537
   \<and> fst (lwcell_mqtt_client_publish (connected_client 8 2) [0x74] (Some payload_dots) 65530 0 0 1 0 True)
       = lwcellOK
   \<and> b_data (tx_buff (snd (lwcell_mqtt_client_publish (connected_client 8 2) [0x74] (Some payload_dots)
                              65530 0 0 1 0 True)))
       = [0x30, 0xFD, 0xFF, 0x03, 0x00, 0x01, 0x74]"
proof -
  have a: "prv_output_check_enough_memory (connected_client 8 2) 65533 = 1"
    by (simp add: connected_client_def prv_output_check_enough_memory_def total_len_loop.simps
        lwcell_buff_get_free_def Let_def)
  have b: "lwcell_buff_get_free (tx_buff (connected_client 8 2)) = 7"
    by (simp add: connected_client_def lwcell_buff_get_free_def)
  have c: "length (rem_len_bytes 65533) = 3"
    by (simp add: rem_len_bytes.simps Let_def)
  have p: "lwcell_mqtt_client_publish (connected_client 8 2) [0x74] (Some payload_dots) 65530 0 0 1 0 True
     = (lwcellOK, (connected_client 8 2)\<lparr>
         tx_buff := \<lparr>b_size = 8, b_r = 0, b_data = [0x30, 0xFD, 0xFF, 0x03, 0x00, 0x01, 0x74]\<rparr>,
         is_sending := 1, written_total := 7,
         requests := [\<lparr>status = 3, packet_id = 0, arg = 1, expected_sent_len = 1, timeout_start_time = 0\<rparr>,
                  zero_request]\<rparr>)"
    apply (simp add: connected_client_def replicate_2 control_defs del: upt_rec_numeral)
    apply (simp add: data_defs del: upt_rec_numeral)
    done
  show ?thesis using a b c p by simp
qed

section \<open>A remaining length above 65535\<close>

lemma take_payload_dots: "n \<le> m \<Longrightarrow> take n (map payload_dots [0..<m]) = replicate n 0x2E"
proof -
  assume "n \<le> m"
  then have "take n (map payload_dots [0..<m]) = map payload_dots [0..<n]"
    by (simp add: take_map)
  also have "\<dots> = replicate n 0x2E"
    by (simp add: payload_dots_def[abs_def] map_replicate_const)
  finally show ?thesis .
qed

text \<open>
  C2. A QoS-0 publish on the topic \<open>t\<close> with a payload of 65533 bytes, on a connected client
  with an empty TX ring of 64 bytes: \<open>lwcell_mqtt_client_publish\<close> computes the remaining
  length \<open>2 + 1 + 65533 = 65536\<close> in 32 bits, a value of [0, 268435455], and passes it to the
  16-bit parameters of \<open>prv_output_check_enough_memory\<close> and \<open>prv_write_fixed_header\<close>.
  The encoder sees 0 and emits the single length byte 0; the publish is accepted with
  \<open>lwcellOK\<close>, the packet queued starts with \<open>30 00 00 01 74\<close>, and the parser, started
  on the header byte and fed the bytes that follow it, ends the accumulation of the remaining
  length after one byte with \<open>msg_rem_len = 0\<close>, not 65536.
\<close>

theorem publish_rem_len_truncated:
  "unat (2 + ucast (of_nat (length [0x74 :: u8]) :: u16) + ucast (65533 :: u16) + 0 :: u32) = 65536
   \<and> (65536 :: u32) \<le> 268435455
   \<and> rem_len_bytes (ucast (65536 :: u32)) = [0x00]
   \<and> prv_output_check_enough_memory (connected_client 64 2) (ucast (65536 :: u32)) = 2
   \<and> lwcell_mqtt_client_publish (connected_client 64 2) [0x74] (Some payload_dots) 65533 0 0 1 0 True
       = (lwcellOK, (connected_client 64 2)\<lparr>
           tx_buff := \<lparr>b_size = 64, b_r = 0,
                       b_data = [0x30, 0x00, 0x00, 0x01, 0x74] @ replicate 58 0x2E\<rparr>,
           is_sending := 1, written_total := 63,
           requests := [\<lparr>status = 3, packet_id = 0, arg = 1, expected_sent_len = 2,
                          timeout_start_time = 0\<rparr>,
                        zero_request]\<rparr>)
   \<and> map_option (\<lambda>(c', d). (msg_rem_len c', d))
         (calc_rem_len (parser_init (connected_client 64 2) 0x30)
            (tl (b_data (tx_buff (snd (lwcell_mqtt_client_publish (connected_client 64 2) [0x74]
                                         (Some payload_dots) 65533 0 0 1 0 True))))))
       = Some (0, [0x00, 0x01, 0x74] @ replicate 58 0x2E)"
proof -
  have a: "unat (2 + ucast (of_nat (length [0x74 :: u8]) :: u16) + ucast (65533 :: u16) + 0 :: u32) = 65536"
    by simp
  have b: "rem_len_bytes (ucast (65536 :: u32)) = [0x00]"
    by (simp add: rem_len_bytes.simps Let_def)
  have c: "prv_output_check_enough_memory (connected_client 64 2) (ucast (65536 :: u32)) = 2"
    by (simp add: connected_client_def prv_output_check_enough_memory_def total_len_loop.simps
        lwcell_buff_get_free_def Let_def)
  have p: "lwcell_mqtt_client_publish (connected_client 64 2) [0x74] (Some payload_dots) 65533 0 0 1 0 True
       = (lwcellOK, (connected_client 64 2)\<lparr>
           tx_buff := \<lparr>b_size = 64, b_r = 0,
                       b_data = [0x30, 0x00, 0x00, 0x01, 0x74] @ replicate 58 0x2E\<rparr>,
           is_sending := 1, written_total := 63,
           requests := [\<lparr>status = 3, packet_id = 0, arg = 1, expected_sent_len = 2,
                          timeout_start_time = 0\<rparr>,
                        zero_request]\<rparr>)"
    apply (simp add: connected_client_def replicate_2 control_defs del: upt_rec_numeral)
    apply (simp add: data_defs take_payload_dots del: upt_rec_numeral)
    done
  have d: "map_option (\<lambda>(c', d). (msg_rem_len c', d))
         (calc_rem_len (parser_init (connected_client 64 2) 0x30)
            ([0x00, 0x00, 0x01, 0x74] @ replicate 58 0x2E))
       = Some (0, [0x00, 0x01, 0x74] @ replicate 58 0x2E)"
    by (simp add: parser_init_def calc_rem_len_byte_def Let_def)
  show ?thesis
    unfolding p using a b c d by (simp)
qed

section \<open>An UNSUBACK through the parser\<close>

lemmas parser_defs =
  prv_mqtt_parse_incoming_def parse_block.simps parse_byte_def parser_init_def calc_rem_len_byte_def
  block_of_def MQTT_PARSER_STATE_INIT_def MQTT_PARSER_STATE_CALC_REM_LEN_def
  MQTT_PARSER_STATE_READ_REM_def

lemma unsub_client_eq:
  "unsub_client = (connected_client 64 2)\<lparr>
     sent_total := 7, written_total := 7, last_packet_id := 1,
     requests := [\<lparr>status = 0x0B, packet_id = 1, arg = 7, expected_sent_len = 0,
                    timeout_start_time = 0\<rparr>,
                  zero_request]\<rparr>"
  unfolding unsub_client_def
  apply (simp add: connected_client_def replicate_2 control_defs)
  apply (simp add: data_defs)
  done

text \<open>
  C4. On \<open>unsub_client\<close> slot 0 holds the pending UNSUBSCRIBE request with packet identifier
  1 and user argument 7. The UNSUBACK for it is \<open>B0 02 00 01\<close>: its body is the packet
  identifier and it has no response byte. The parser takes the zero-copy path, so the byte
  \<open>rx_buff[2]\<close> that the dispatcher compares with 3 is the byte behind the packet:
  \<^item> received in one block with a PINGRESP behind it (\<open>B0 02 00 01 D0 00\<close>), the byte is the
    header \<open>D0\<close> of the PINGRESP and the user gets UNSUBSCRIBE with \<open>lwcellERR\<close>;
  \<^item> received as the whole of a block, the byte lies behind the block: the user gets
    \<open>lwcellOK\<close> when the memory there holds \<open>00\<close> and \<open>lwcellERR\<close> when it holds
    \<open>FF\<close>.
  In each case the request is retired.
\<close>

theorem unsuback_result_outside_packet:
  "requests unsub_client =
     [\<lparr>status = MQTT_REQUEST_FLAG_IN_USE OR MQTT_REQUEST_FLAG_PENDING OR MQTT_REQUEST_FLAG_UNSUBSCRIBE,
       packet_id = 1, arg = 7, expected_sent_len = 0, timeout_start_time = 0\<rparr>,
      zero_request]
   \<and> conn_state unsub_client = LWCELL_MQTT_CONNECTED
   \<and> parser_state unsub_client = MQTT_PARSER_STATE_INIT
   \<and> evts unsub_client = []
   \<and> evts (snd (prv_mqtt_parse_incoming unsub_client
                  [(block_of [0xB0, 0x02, 0x00, 0x01, 0xD0, 0x00] 0x00, 6)] True))
       = [LWCELL_MQTT_EVT_UNSUBSCRIBE 7 lwcellERR, LWCELL_MQTT_EVT_KEEP_ALIVE]
   \<and> evts (snd (prv_mqtt_parse_incoming unsub_client [(block_of [0xB0, 0x02, 0x00, 0x01] 0x00, 4)] True))
       = [LWCELL_MQTT_EVT_UNSUBSCRIBE 7 lwcellOK]
   \<and> evts (snd (prv_mqtt_parse_incoming unsub_client [(block_of [0xB0, 0x02, 0x00, 0x01] 0xFF, 4)] True))
       = [LWCELL_MQTT_EVT_UNSUBSCRIBE 7 lwcellERR]
   \<and> requests (snd (prv_mqtt_parse_incoming unsub_client
                      [(block_of [0xB0, 0x02, 0x00, 0x01, 0xD0, 0x00] 0x00, 6)] True))
       = [zero_request\<lparr>packet_id := 1, arg := 7\<rparr>, zero_request]"
proof -
  have s: "requests unsub_client =
     [\<lparr>status = MQTT_REQUEST_FLAG_IN_USE OR MQTT_REQUEST_FLAG_PENDING OR MQTT_REQUEST_FLAG_UNSUBSCRIBE,
       packet_id = 1, arg = 7, expected_sent_len = 0, timeout_start_time = 0\<rparr>,
      zero_request]"
    "conn_state unsub_client = LWCELL_MQTT_CONNECTED"
    "parser_state unsub_client = MQTT_PARSER_STATE_INIT"
    "evts unsub_client = []"
    unfolding unsub_client_eq
    by (simp_all add: connected_client_def MQTT_REQUEST_FLAG_IN_USE_def MQTT_REQUEST_FLAG_PENDING_def
        MQTT_REQUEST_FLAG_UNSUBSCRIBE_def)
  have r1: "evts (snd (prv_mqtt_parse_incoming unsub_client
                  [(block_of [0xB0, 0x02, 0x00, 0x01, 0xD0, 0x00] 0x00, 6)] True))
       = [LWCELL_MQTT_EVT_UNSUBSCRIBE 7 lwcellERR, LWCELL_MQTT_EVT_KEEP_ALIVE]"
    unfolding unsub_client_eq
    apply (simp add: connected_client_def replicate_2 parser_defs control_defs)
    apply (simp add: data_defs)
    done
  have r2: "evts (snd (prv_mqtt_parse_incoming unsub_client [(block_of [0xB0, 0x02, 0x00, 0x01] 0x00, 4)] True))
       = [LWCELL_MQTT_EVT_UNSUBSCRIBE 7 lwcellOK]"
    unfolding unsub_client_eq
    apply (simp add: connected_client_def replicate_2 parser_defs control_defs)
    apply (simp add: data_defs)
    done
  have r3: "evts (snd (prv_mqtt_parse_incoming unsub_client [(block_of [0xB0, 0x02, 0x00, 0x01] 0xFF, 4)] True))
       = [LWCELL_MQTT_EVT_UNSUBSCRIBE 7 lwcellERR]"
    unfolding unsub_client_eq
    apply (simp add: connected_client_def replicate_2 parser_defs control_defs)
    apply (simp add: data_defs)
    done
  have r4: "requests (snd (prv_mqtt_parse_incoming unsub_client
                      [(block_of [0xB0, 0x02, 0x00, 0x01, 0xD0, 0x00] 0x00, 6)] True))
       = [zero_request\<lparr>packet_id := 1, arg := 7\<rparr>, zero_request]"
    unfolding unsub_client_eq
    apply (simp add: connected_client_def replicate_2 parser_defs control_defs)
    apply (simp add: data_defs)
    done
  show ?thesis using s r1 r2 r3 r4 by simp
qed

end
